theory Spec2Isabelle
  imports Complex_Main "HOL-Library.Sublist"
begin

section \<open>Python values\<close>

text \<open>
  Strings are byte sequences holding UTF-8; the separators and markers the program
  searches for are ASCII, so searching and splitting on bytes agrees with Python's
  code-point strings.
\<close>

definition nl :: char where
  "nl = CHR 0x0A"

definition dq :: char where
  "dq = CHR 0x22"

text \<open>
  A Python float: the finite doubles are rationals; comparison with an integer and
  truncation are exact on them, and no arithmetic is done on floats by the program.
\<close>

datatype pyfloat = Finite rat | PosInf | NegInf | NaN

datatype json =
    JNull
  | JBool bool
  | JInt int
  | JFloat pyfloat
  | JStr string
  | JArr "json list"
  | JObj "(string \<times> json) list"

text \<open>A dict is an association list in insertion order, keys unique.\<close>

type_synonym pydict = "(string \<times> json) list"

text \<open>
  Exceptions with their message; \<open>HTTPError\<close> is FastAPI's \<open>HTTPException\<close> with its
  status code and detail, when it is raised inside a \<open>try\<close>.
\<close>

datatype exn =
    ValueError string
  | TypeError string
  | AttributeError string
  | IndexError string
  | ValidationError string
  | JSONDecodeError string
  | ModelError string
  | HTTPError nat string

subsection \<open>dict operations\<close>

definition dict_get :: "('k \<times> 'v) list \<Rightarrow> 'k \<Rightarrow> 'v option" where
  "dict_get d k = map_of d k"

text \<open>\<open>d[k] = v\<close>: an existing key keeps its position, a new key goes last.\<close>

fun dict_set :: "('k \<times> 'v) list \<Rightarrow> 'k \<Rightarrow> 'v \<Rightarrow> ('k \<times> 'v) list" where
  "dict_set [] k v = [(k, v)]"
| "dict_set ((k', v') # d) k v =
     (if k' = k then (k, v) # d else (k', v') # dict_set d k v)"

text \<open>Building a dict from pairs in order, as a dict display or comprehension does.\<close>

definition dict_update :: "('k \<times> 'v) list \<Rightarrow> ('k \<times> 'v) list \<Rightarrow> ('k \<times> 'v) list" where
  "dict_update d kvs = foldl (\<lambda>acc (k, v). dict_set acc k v) d kvs"

subsection \<open>str operations\<close>

text \<open>\<open>sub in s\<close>\<close>

fun contains_py :: "string \<Rightarrow> string \<Rightarrow> bool" where
  "contains_py sub [] = (sub = [])"
| "contains_py sub (c # cs) = (prefix sub (c # cs) \<or> contains_py sub cs)"

text \<open>\<open>s.split(sep)\<close> for a non-empty separator: cut at every occurrence, left to right.\<close>

function split_py :: "string \<Rightarrow> string \<Rightarrow> string list" where
  "split_py sep [] = [[]]"
| "split_py sep (c # cs) =
     (if sep \<noteq> [] \<and> prefix sep (c # cs)
      then [] # split_py sep (drop (length sep) (c # cs))
      else (case split_py sep cs of
              [] \<Rightarrow> [[c]]
            | p # ps \<Rightarrow> (c # p) # ps))"
  by pat_completeness auto
termination
  by (relation "measure (\<lambda>(sep, s). length s)") (auto simp: neq_Nil_conv)

text \<open>\<open>s.replace(old, new)\<close> for a non-empty \<open>old\<close>.\<close>

function replace_py :: "string \<Rightarrow> string \<Rightarrow> string \<Rightarrow> string" where
  "replace_py old new [] = []"
| "replace_py old new (c # cs) =
     (if old \<noteq> [] \<and> prefix old (c # cs)
      then new @ replace_py old new (drop (length old) (c # cs))
      else c # replace_py old new cs)"
  by pat_completeness auto
termination
  by (relation "measure (\<lambda>(old, new, s). length s)") (auto simp: neq_Nil_conv)

text \<open>
  The characters \<open>str.strip()\<close> removes, in UTF-8: U+0009 to U+000D, U+001C to U+0020,
  U+0085, U+00A0, U+1680, U+2000 to U+200A, U+2028, U+2029, U+202F, U+205F, U+3000.
\<close>

definition py_whitespace :: "string list" where
  "py_whitespace =
     [[CHR 0x09], [CHR 0x0A], [CHR 0x0B], [CHR 0x0C], [CHR 0x0D],
      [CHR 0x1C], [CHR 0x1D], [CHR 0x1E], [CHR 0x1F], [CHR 0x20],
      [CHR 0xC2, CHR 0x85], [CHR 0xC2, CHR 0xA0],
      [CHR 0xE1, CHR 0x9A, CHR 0x80],
      [CHR 0xE2, CHR 0x80, CHR 0x80], [CHR 0xE2, CHR 0x80, CHR 0x81],
      [CHR 0xE2, CHR 0x80, CHR 0x82], [CHR 0xE2, CHR 0x80, CHR 0x83],
      [CHR 0xE2, CHR 0x80, CHR 0x84], [CHR 0xE2, CHR 0x80, CHR 0x85],
      [CHR 0xE2, CHR 0x80, CHR 0x86], [CHR 0xE2, CHR 0x80, CHR 0x87],
      [CHR 0xE2, CHR 0x80, CHR 0x88], [CHR 0xE2, CHR 0x80, CHR 0x89],
      [CHR 0xE2, CHR 0x80, CHR 0x8A],
      [CHR 0xE2, CHR 0x80, CHR 0xA8], [CHR 0xE2, CHR 0x80, CHR 0xA9],
      [CHR 0xE2, CHR 0x80, CHR 0xAF], [CHR 0xE2, CHR 0x81, CHR 0x9F],
      [CHR 0xE3, CHR 0x80, CHR 0x80]]"

definition ws_head :: "string \<Rightarrow> string option" where
  "ws_head s = find (\<lambda>w. prefix w s) py_whitespace"

definition ws_tail :: "string \<Rightarrow> string option" where
  "ws_tail s = find (\<lambda>w. suffix w s) py_whitespace"

lemma ws_nonempty: "w \<in> set py_whitespace \<Longrightarrow> w \<noteq> []"
  by (auto simp: py_whitespace_def)

lemma ws_head_Some: "ws_head s = Some w \<Longrightarrow> w \<noteq> [] \<and> prefix w s"
  unfolding ws_head_def by (metis find_Some_iff nth_mem ws_nonempty)

lemma ws_tail_Some: "ws_tail s = Some w \<Longrightarrow> w \<noteq> [] \<and> suffix w s"
  unfolding ws_tail_def by (metis find_Some_iff nth_mem ws_nonempty)

function lstrip :: "string \<Rightarrow> string" where
  "lstrip s = (case ws_head s of None \<Rightarrow> s | Some w \<Rightarrow> lstrip (drop (length w) s))"
  by pat_completeness auto

termination
proof (relation "measure length")
  show "wf (measure length)" by simp
next
  fix s w assume "ws_head s = Some w"
  then have "w \<noteq> []" "prefix w s" using ws_head_Some by blast+
  then show "(drop (length w) s, s) \<in> measure length"
    by (cases s) (auto simp: prefix_def)
qed

function rstrip :: "string \<Rightarrow> string" where
  "rstrip s = (case ws_tail s of None \<Rightarrow> s | Some w \<Rightarrow> rstrip (take (length s - length w) s))"
  by pat_completeness auto
termination
proof (relation "measure length")
  show "wf (measure length)" by simp
next
  fix s w assume "ws_tail s = Some w"
  then have "w \<noteq> []" "suffix w s" using ws_tail_Some by blast+
  then show "(take (length s - length w) s, s) \<in> measure length"
    by (cases s) (auto simp: suffix_def)
qed

declare lstrip.simps [simp del] rstrip.simps [simp del]

text \<open>\<open>s.strip()\<close>\<close>

definition strip :: "string \<Rightarrow> string" where
  "strip s = rstrip (lstrip s)"

text \<open>\<open>xs[i]\<close> for a non-negative index; out of range raises IndexError.\<close>

definition index_py :: "'a list \<Rightarrow> nat \<Rightarrow> exn + 'a" where
  "index_py xs i =
     (if i < length xs then Inr (xs ! i) else Inl (IndexError ''list index out of range''))"

text \<open>\<open>xs[i:j]\<close> for non-negative bounds.\<close>

definition slice :: "'a list \<Rightarrow> nat \<Rightarrow> nat \<Rightarrow> 'a list" where
  "slice xs i j = take (j - i) (drop i xs)"

text \<open>\<open>range(start, stop, step)\<close> for a positive step.\<close>

function range_up :: "nat \<Rightarrow> nat \<Rightarrow> nat \<Rightarrow> nat list" where
  "range_up i n step =
     (if 0 < step \<and> i < n then i # range_up (i + step) n step else [])"
  by pat_completeness auto
termination
  by (relation "measure (\<lambda>(i, n, step). n - i)") auto

declare range_up.simps [simp del]

text \<open>\<open>range(0, n, step)\<close> for any integer step and \<open>n \<ge> 0\<close>.\<close>

definition range_py :: "nat \<Rightarrow> int \<Rightarrow> exn + nat list" where
  "range_py n step =
     (if step = 0 then Inl (ValueError ''range() arg 3 must not be zero'')
      else if step < 0 then Inr []
      else Inr (range_up 0 n (nat step)))"

text \<open>Truth value of a JSON value, as \<open>if v\<close> and \<open>v or d\<close> test it.\<close>

fun truthy :: "json \<Rightarrow> bool" where
  "truthy JNull = False"
| "truthy (JBool b) = b"
| "truthy (JInt n) = (n \<noteq> 0)"
| "truthy (JFloat f) = (f \<noteq> Finite 0)"
| "truthy (JStr s) = (s \<noteq> [])"
| "truthy (JArr xs) = (xs \<noteq> [])"
| "truthy (JObj d) = (d \<noteq> [])"

fun type_name :: "json \<Rightarrow> string" where
  "type_name JNull = ''NoneType''"
| "type_name (JBool b) = ''bool''"
| "type_name (JInt n) = ''int''"
| "type_name (JFloat f) = ''float''"
| "type_name (JStr s) = ''str''"
| "type_name (JArr xs) = ''list''"
| "type_name (JObj d) = ''dict''"

section \<open>Requests and the runtime\<close>

record FreestyleRequest =
  data :: "(string \<times> json list) list"
  headers :: "string list"
  prompt :: string
  batch_size :: int
  enable_google_search :: bool
  test_mode :: bool
  mode :: "string option"

record KeywordKombatRequest =
  kk_keywords :: "string list"
  company_url :: string
  keyword_variable :: string
  kk_enable_google_search :: bool
  kk_test_mode :: bool
  kk_mode :: "string option"

text \<open>The answer of the sibling service to the forwarded row request.\<close>

record upstream_response =
  status_code :: nat
  resp_text :: string
  resp_json :: "exn + json"

text \<open>
  What the program calls and does not define: the model client (\<open>generate_content\<close>
  followed by reading \<open>.text\<close>, which is absent or a string, or raises), the
  \<open>json\<close> module, the conversion of a value to text in an f-string, the pydantic
  constructors of the two request classes, the HTTP client of the proxy hop, and the
  text \<open>str\<close> gives for an \<open>HTTPException\<close>.
\<close>

record runtime =
  generate_content :: "string \<Rightarrow> exn + string option"
  json_loads :: "string \<Rightarrow> exn + json"
  json_dumps :: "json \<Rightarrow> string"
  py_str :: "json \<Rightarrow> string"
  new_FreestyleRequest :: "pydict \<Rightarrow> exn + FreestyleRequest"
  new_KeywordKombatRequest :: "pydict \<Rightarrow> exn + KeywordKombatRequest"
  requests_post :: "string \<Rightarrow> pydict \<Rightarrow> exn + upstream_response"
  str_HTTPException :: "nat \<Rightarrow> string \<Rightarrow> string"

text \<open>\<open>str(e)\<close>\<close>

fun str_exn :: "runtime \<Rightarrow> exn \<Rightarrow> string" where
  "str_exn rt (ValueError m) = m"
| "str_exn rt (TypeError m) = m"
| "str_exn rt (AttributeError m) = m"
| "str_exn rt (IndexError m) = m"
| "str_exn rt (ValidationError m) = m"
| "str_exn rt (JSONDecodeError m) = m"
| "str_exn rt (ModelError m) = m"
| "str_exn rt (HTTPError c m) = str_HTTPException rt c m"

section \<open>Reading a model reply\<close>

text \<open>\<open>(resp.text or "{}")\<close>\<close>

definition text_or_default :: "string option \<Rightarrow> string" where
  "text_or_default t = (case t of None \<Rightarrow> ''{}'' | Some s \<Rightarrow> if s = [] then ''{}'' else s)"

text \<open>\<open>txt.split(opening)[1].split("```")[0]\<close>\<close>

definition between_fences :: "string \<Rightarrow> string \<Rightarrow> exn + string" where
  "between_fences opening txt =
     (case index_py (split_py opening txt) 1 of
        Inl e \<Rightarrow> Inl e
      | Inr a \<Rightarrow> index_py (split_py ''```'' a) 0)"

text \<open>
  The block that follows every model call, the same text at each of its places in
  both applications: with a fence in the reply, the body of the first fence labelled
  \<open>json\<close>, else the body of the first fence, else the reply as it is.
\<close>

definition strip_fence :: "string \<Rightarrow> string" where
  "strip_fence txt =
     (if contains_py ''```'' txt then
        (case between_fences ''```json'' txt of
           Inr t \<Rightarrow> t
         | Inl _ \<Rightarrow>
             (case between_fences ''```'' txt of
                Inr t \<Rightarrow> t
              | Inl _ \<Rightarrow> txt))
      else txt)"

section \<open>Row mode: \<open>process_rows_freestyle\<close>\<close>

record rows_response =
  success :: bool
  results :: "pydict list"
  processed_count :: nat
  total_count :: nat

definition row_prompt :: "runtime \<Rightarrow> FreestyleRequest \<Rightarrow> json list \<Rightarrow> string" where
  "row_prompt rt request row_values =
     (let row_dict = dict_update [] (zip (headers request) row_values)
      in ''Row: '' @ json_dumps rt (JObj row_dict) @ [nl, nl] @ ''Instructions: '' @
         prompt request @ [nl, nl] @ ''Return strict JSON only.'')"

text \<open>\<open>run_row\<close>: every exception inside gives \<open>None\<close>.\<close>

definition run_row ::
  "runtime \<Rightarrow> FreestyleRequest \<Rightarrow> string \<Rightarrow> json list \<Rightarrow> (string \<times> pydict) option" where
  "run_row rt request row_key row_values =
     (case generate_content rt (row_prompt rt request row_values) of
        Inl e \<Rightarrow> None
      | Inr resp_txt \<Rightarrow>
          (let txt = strip_fence (strip (text_or_default resp_txt))
           in case json_loads rt txt of
                Inl e \<Rightarrow> None
              | Inr (JObj obj) \<Rightarrow> Some (row_key, obj)
              | Inr v \<Rightarrow> Some (row_key, [(''output'', v)])))"

text \<open>The inner loop over the outcomes of one batch.\<close>

fun collect_outs :: "(string \<times> pydict) option list \<Rightarrow> pydict list \<Rightarrow> pydict list" where
  "collect_outs [] res = res"
| "collect_outs (None # outs) res = collect_outs outs res"
| "collect_outs (Some (row_key, obj) # outs) res =
     collect_outs outs (res @ [dict_update [(''row_key'', JStr row_key)] obj])"

text \<open>
  What the loop does besides computing \<open>results\<close>: \<open>Dispatched batch\<close> when the tasks of
  a batch are handed to \<open>asyncio.gather\<close>, \<open>Gathered batch\<close> when the \<open>await\<close> on it has
  returned, that is when every task of the batch has completed.
\<close>

datatype event =
    Dispatched "(string \<times> json list) list"
  | Gathered "(string \<times> json list) list"

text \<open>
  The outer loop: one iteration per start index; the batch is cut from the items,
  dispatched and awaited as a whole, and its outcomes are collected.
\<close>

fun batch_loop ::
  "runtime \<Rightarrow> FreestyleRequest \<Rightarrow> (string \<times> json list) list \<Rightarrow> nat list \<Rightarrow>
   pydict list \<Rightarrow> event list \<Rightarrow> pydict list \<times> event list" where
  "batch_loop rt request items [] res trace = (res, trace)"
| "batch_loop rt request items (i # is) res trace =
     (let batch = slice items i (i + nat (batch_size request));
          outs = map (\<lambda>(k, v). run_row rt request k v) batch
      in batch_loop rt request items is (collect_outs outs res)
           (trace @ [Dispatched batch, Gathered batch]))"

text \<open>A run of \<open>process_rows_freestyle\<close>: what it returns, with the log of its loop.\<close>

definition process_rows_freestyle_run ::
  "runtime \<Rightarrow> FreestyleRequest \<Rightarrow> exn + (rows_response \<times> event list)" where
  "process_rows_freestyle_run rt request =
     (let items = data request
      in case range_py (length items) (batch_size request) of
           Inl e \<Rightarrow> Inl e
         | Inr starts \<Rightarrow>
             (case batch_loop rt request items starts [] [] of
                (res, trace) \<Rightarrow>
                  Inr (\<lparr>success = True, results = res, processed_count = length res,
                        total_count = length (data request)\<rparr>, trace)))"

text \<open>What \<open>process_rows_freestyle\<close> returns.\<close>

definition process_rows_freestyle :: "runtime \<Rightarrow> FreestyleRequest \<Rightarrow> exn + rows_response" where
  "process_rows_freestyle rt request =
     (case process_rows_freestyle_run rt request of
        Inl e \<Rightarrow> Inl e
      | Inr (resp, trace) \<Rightarrow> Inr resp)"

section \<open>Score mode: \<open>process_keyword_kombat\<close>\<close>

definition sq :: char where
  "sq = CHR 0x27"

text \<open>\<open>v.get(k, d)\<close>: only a dict has the method.\<close>

definition json_get :: "json \<Rightarrow> string \<Rightarrow> json \<Rightarrow> exn + json" where
  "json_get v k d =
     (case v of
        JObj obj \<Rightarrow> Inr (case dict_get obj k of None \<Rightarrow> d | Some x \<Rightarrow> x)
      | _ \<Rightarrow> Inl (AttributeError
               ([sq] @ type_name v @ [sq] @ '' object has no attribute '' @ [sq] @ ''get'' @ [sq])))"

text \<open>A value interpolated into an f-string: a string as it is, the rest by \<open>str\<close>.\<close>

definition format_py :: "runtime \<Rightarrow> json \<Rightarrow> string" where
  "format_py rt v = (case v of JStr s \<Rightarrow> s | _ \<Rightarrow> py_str rt v)"

text \<open>Numbers as \<open>isinstance(score, (int, float))\<close> accepts them: \<open>bool\<close> is an \<open>int\<close>.\<close>

datatype num = I int | F pyfloat

fun as_number :: "json \<Rightarrow> num option" where
  "as_number (JBool b) = Some (I (if b then 1 else 0))"
| "as_number (JInt n) = Some (I n)"
| "as_number (JFloat f) = Some (F f)"
| "as_number _ = None"

fun float_lt :: "pyfloat \<Rightarrow> pyfloat \<Rightarrow> bool" where
  "float_lt NaN _ = False"
| "float_lt _ NaN = False"
| "float_lt _ NegInf = False"
| "float_lt NegInf _ = True"
| "float_lt PosInf _ = False"
| "float_lt _ PosInf = True"
| "float_lt (Finite a) (Finite b) = (a < b)"

fun to_float :: "num \<Rightarrow> pyfloat" where
  "to_float (I n) = Finite (of_int n)"
| "to_float (F f) = f"

text \<open>\<open>a < b\<close> on numbers; the comparison of an int with a float is exact.\<close>

fun num_lt :: "num \<Rightarrow> num \<Rightarrow> bool" where
  "num_lt (I a) (I b) = (a < b)"
| "num_lt a b = float_lt (to_float a) (to_float b)"

text \<open>\<open>min(a, b)\<close> keeps \<open>a\<close> unless \<open>b < a\<close>; \<open>max(a, b)\<close> keeps \<open>a\<close> unless \<open>b > a\<close>.\<close>

definition min_py :: "num \<Rightarrow> num \<Rightarrow> num" where
  "min_py a b = (if num_lt b a then b else a)"

definition max_py :: "num \<Rightarrow> num \<Rightarrow> num" where
  "max_py a b = (if num_lt a b then b else a)"

text \<open>\<open>int(x)\<close>: a float is cut towards zero; NaN and the infinities raise.\<close>

fun int_py :: "num \<Rightarrow> exn + int" where
  "int_py (I n) = Inr n"
| "int_py (F (Finite q)) = Inr (if 0 \<le> q then \<lfloor>q\<rfloor> else \<lceil>q\<rceil>)"
| "int_py (F NaN) = Inl (ValueError ''cannot convert float NaN to integer'')"
| "int_py (F _) = Inl (ValueError ''cannot convert float infinity to integer'')"

text \<open>\<open>v >= k\<close> for an int \<open>k\<close>: a value that is not a number raises TypeError.\<close>

definition ge_py :: "json \<Rightarrow> int \<Rightarrow> exn + bool" where
  "ge_py v k =
     (case as_number v of
        None \<Rightarrow> Inl (TypeError
                 ([sq] @ ''>='' @ [sq] @ '' not supported between instances of '' @
                  [sq] @ type_name v @ [sq] @ '' and '' @ [sq] @ ''int'' @ [sq]))
      | Some (I a) \<Rightarrow> Inr (k \<le> a)
      | Some (F f) \<Rightarrow> Inr (f = Finite (of_int k) \<or> float_lt (Finite (of_int k)) f))"

text \<open>
  The non-ASCII letters as the source files spell them: \<open>u\<close> and \<open>a\<close> followed by the
  combining diaeresis U+0308, the sharp s U+00DF and the en dash U+2013.
\<close>

definition u_uml :: string where
  "u_uml = [CHR ''u'', CHR 0xCC, CHR 0x88]"

definition a_uml :: string where
  "a_uml = [CHR ''a'', CHR 0xCC, CHR 0x88]"

definition sharp_s :: string where
  "sharp_s = [CHR 0xC3, CHR 0x9F]"

definition en_dash :: string where
  "en_dash = [CHR 0xE2, CHR 0x80, CHR 0x93]"

definition research_prompt :: "KeywordKombatRequest \<Rightarrow> string" where
  "research_prompt req =
     (let p = ''Analysiere '' @ company_url req @
              '' und gib JSON mit company_name, company_description zur'' @ u_uml @ ''ck.''
      in if kk_enable_google_search req then ''Recherchiere im Web: '' @ p else p)"

text \<open>
  The company research call: the model call is not guarded, the parse is, with the
  default object in its handler.
\<close>

definition research_company :: "runtime \<Rightarrow> KeywordKombatRequest \<Rightarrow> exn + json" where
  "research_company rt req =
     (case generate_content rt (research_prompt req) of
        Inl e \<Rightarrow> Inl e
      | Inr r \<Rightarrow>
          (let text = strip_fence (strip (text_or_default r))
           in case json_loads rt text of
                Inl e \<Rightarrow> Inr (JObj [(''company_name'', JStr (company_url req))])
              | Inr company \<Rightarrow> Inr company))"

text \<open>The scoring template \<open>tpl\<close>, the same text in both applications.\<close>

definition score_template :: "runtime \<Rightarrow> json \<Rightarrow> exn + string" where
  "score_template rt company =
     (case json_get company ''company_name'' (JStr []) of
        Inl e \<Rightarrow> Inl e
      | Inr name \<Rightarrow>
          (case json_get company ''company_description'' (JStr []) of
             Inl e \<Rightarrow> Inl e
           | Inr desc \<Rightarrow>
               Inr (''INPUT:'' @ [nl] @ ''Keyword: '' @ [dq] @ ''{{ keyword }}'' @ [dq, nl, nl] @
                    ''SYSTEM:'' @ [nl] @
                    ''Du agierst als deutschsprachiger SEO-Analyst f'' @ u_uml @ ''r **'' @
                    format_py rt name @ ''** '' @ en_dash @ '' '' @ format_py rt desc @ ''.'' @
                    [nl, nl] @
                    ''Gib ausschlie'' @ sharp_s @ ''lich JSON zur'' @ u_uml @ ''ck:'' @ [nl] @
                    ''{'' @ [nl] @
                    ''  '' @ [dq] @ ''Keyword'' @ [dq] @ '': '' @ [dq] @ ''<keyword>'' @ [dq] @
                    '','' @ [nl] @
                    ''  '' @ [dq] @ ''RelevanceScore'' @ [dq] @ '': <integer>,'' @ [nl] @
                    ''  '' @ [dq] @ ''Rationale'' @ [dq] @ '': '' @ [dq] @ ''<1'' @ en_dash @
                    ''2 S'' @ a_uml @ ''tze>'' @ [dq, nl] @
                    ''}'')))"

text \<open>\<open>int(max(10, min(100, score)))\<close>\<close>

definition clamp_score :: "num \<Rightarrow> exn + int" where
  "clamp_score x = int_py (max_py (I 10) (min_py (I 100) x))"

text \<open>\<open>score\<close>: every exception inside gives \<open>None\<close>.\<close>

definition score :: "runtime \<Rightarrow> string \<Rightarrow> string \<Rightarrow> pydict option" where
  "score rt tpl kw =
     (case generate_content rt (replace_py ''{{ keyword }}'' kw tpl) of
        Inl e \<Rightarrow> None
      | Inr resp \<Rightarrow>
          (let txt = strip_fence (strip (text_or_default resp))
           in case json_loads rt txt of
                Inl e \<Rightarrow> None
              | Inr v \<Rightarrow>
                  (case json_get v ''RelevanceScore'' (JInt 0) of
                     Inl e \<Rightarrow> None
                   | Inr sc \<Rightarrow>
                       (case v of
                          JObj obj \<Rightarrow>
                            (case as_number sc of
                               None \<Rightarrow> Some obj
                             | Some x \<Rightarrow>
                                 (case clamp_score x of
                                    Inl e \<Rightarrow> None
                                  | Inr c \<Rightarrow> Some (dict_set obj ''RelevanceScore'' (JInt c))))
                        | _ \<Rightarrow> None))))"

text \<open>\<open>[o for o in outs if o]\<close>: \<open>None\<close> and the empty dict are false.\<close>

definition truthy_outs :: "pydict option list \<Rightarrow> pydict list" where
  "truthy_outs outs =
     List.map_filter (\<lambda>out. case out of None \<Rightarrow> None | Some d \<Rightarrow> if d = [] then None else Some d) outs"

text \<open>\<open>[o for o in xs if o.get("RelevanceScore", 0) >= k]\<close>, left to right.\<close>

fun filter_ge :: "int \<Rightarrow> pydict list \<Rightarrow> exn + pydict list" where
  "filter_ge k [] = Inr []"
| "filter_ge k (x # xs) =
     (case json_get (JObj x) ''RelevanceScore'' (JInt 0) of
        Inl e \<Rightarrow> Inl e
      | Inr v \<Rightarrow>
          (case ge_py v k of
             Inl e \<Rightarrow> Inl e
           | Inr b \<Rightarrow>
               (case filter_ge k xs of
                  Inl e \<Rightarrow> Inl e
                | Inr r \<Rightarrow> Inr (if b then x # r else r))))"

definition placeholder :: "string \<Rightarrow> pydict" where
  "placeholder kw =
     [(''Keyword'', JStr kw), (''RelevanceScore'', JInt 90),
      (''Rationale'', JStr (''Testmodus: Beispielausgabe f'' @ u_uml @ ''r die UI''))]"

definition process_keyword_kombat :: "runtime \<Rightarrow> KeywordKombatRequest \<Rightarrow> exn + pydict list" where
  "process_keyword_kombat rt req =
     (case research_company rt req of
        Inl e \<Rightarrow> Inl e
      | Inr company \<Rightarrow>
          (case score_template rt company of
             Inl e \<Rightarrow> Inl e
           | Inr tpl \<Rightarrow>
               (let kws = (if kk_test_mode req then take 3 (kk_keywords req) else kk_keywords req);
                    outs = map (score rt tpl) kws;
                    results_raw = truthy_outs outs
                in case filter_ge 80 results_raw of
                     Inl e \<Rightarrow> Inl e
                   | Inr res \<Rightarrow>
                       if res = [] then
                         (if kk_test_mode req then Inr (map placeholder kws)
                          else filter_ge 50 results_raw)
                       else Inr res)))"

section \<open>The endpoint of the direct application\<close>

text \<open>
  What the endpoint answers: a returned body (status 200), an \<open>HTTPException\<close> with
  status and detail, or an exception that leaves the endpoint, which the framework
  answers with status 500. Wall-clock time (\<open>processing_time\<close>) is left out.
\<close>

datatype payload =
    ProcessingResponse "pydict list" nat
  | RowsResult rows_response
  | UpstreamJson json

datatype http_result =
    Returned payload
  | HTTPException nat string
  | Unhandled exn

fun http_status :: "http_result \<Rightarrow> nat" where
  "http_status (Returned p) = 200"
| "http_status (HTTPException c d) = c"
| "http_status (Unhandled e) = 500"

text \<open>\<open>(body.get("mode") or "freestyle").strip()\<close>\<close>

definition request_mode :: "pydict \<Rightarrow> exn + string" where
  "request_mode body =
     (case dict_get body ''mode'' of
        None \<Rightarrow> Inr (strip ''freestyle'')
      | Some v \<Rightarrow>
          if truthy v then
            (case v of
               JStr s \<Rightarrow> Inr (strip s)
             | _ \<Rightarrow> Inl (AttributeError
                      ([sq] @ type_name v @ [sq] @ '' object has no attribute '' @
                       [sq] @ ''strip'' @ [sq])))
          else Inr (strip ''freestyle''))"

text \<open>The body of the \<open>try\<close> of \<open>process_unified\<close>.\<close>

definition process_unified_try :: "runtime \<Rightarrow> string \<Rightarrow> pydict \<Rightarrow> exn + payload" where
  "process_unified_try rt m body =
     (if m = ''keyword-kombat'' then
        (case new_KeywordKombatRequest rt body of
           Inl e \<Rightarrow> Inl e
         | Inr req \<Rightarrow>
             (case process_keyword_kombat rt req of
                Inl e \<Rightarrow> Inl e
              | Inr res \<Rightarrow> Inr (ProcessingResponse res (length res))))
      else
        (case new_FreestyleRequest rt body of
           Inl e \<Rightarrow> Inl e
         | Inr req \<Rightarrow>
             (case process_rows_freestyle rt req of
                Inl e \<Rightarrow> Inl e
              | Inr out \<Rightarrow> Inr (RowsResult out))))"

definition process_unified :: "runtime \<Rightarrow> pydict \<Rightarrow> http_result" where
  "process_unified rt body =
     (case request_mode body of
        Inl e \<Rightarrow> Unhandled e
      | Inr m \<Rightarrow>
          (case process_unified_try rt m body of
             Inl e \<Rightarrow> HTTPException 500 (''Processing failed: '' @ str_exn rt e)
           | Inr p \<Rightarrow> Returned p))"

section \<open>The unified application\<close>

definition frontand_research_prompt :: "string \<Rightarrow> bool \<Rightarrow> string" where
  "frontand_research_prompt url search =
     (let p = ''Analysiere die Webseite '' @ url @
              '' und gib JSON mit company_name, company_description, industry, target_market zur'' @
              u_uml @ ''ck.''
      in if search then ''Recherchiere im Web: '' @ p else p)"

text \<open>The default object of the handler around the parse.\<close>

definition frontand_default_company :: "string \<Rightarrow> exn + json" where
  "frontand_default_company url =
     (case index_py (split_py ''/'' (replace_py ''http://'' [] (replace_py ''https://'' [] url))) 0 of
        Inl e \<Rightarrow> Inl e
      | Inr host \<Rightarrow>
          Inr (JObj [(''company_name'', JStr host),
                     (''company_description'', JStr (''Unternehmen unter '' @ url)),
                     (''industry'', JStr []),
                     (''target_market'', JStr [])]))"

definition frontand_research_company :: "runtime \<Rightarrow> string \<Rightarrow> bool \<Rightarrow> exn + json" where
  "frontand_research_company rt url search =
     (case generate_content rt (frontand_research_prompt url search) of
        Inl e \<Rightarrow> Inl e
      | Inr r \<Rightarrow>
          (let text = strip_fence (strip (text_or_default r))
           in case json_loads rt text of
                Inl e \<Rightarrow> frontand_default_company url
              | Inr company \<Rightarrow> Inr company))"

text \<open>\<open>score_kw\<close>: reads the field without a default; every exception gives \<open>None\<close>.\<close>

definition score_kw :: "runtime \<Rightarrow> string \<Rightarrow> string \<Rightarrow> pydict option" where
  "score_kw rt tpl kw =
     (case generate_content rt (replace_py ''{{ keyword }}'' kw tpl) of
        Inl e \<Rightarrow> None
      | Inr resp \<Rightarrow>
          (let txt = strip_fence (strip (text_or_default resp))
           in case json_loads rt txt of
                Inl e \<Rightarrow> None
              | Inr v \<Rightarrow>
                  (case json_get v ''RelevanceScore'' JNull of
                     Inl e \<Rightarrow> None
                   | Inr sc \<Rightarrow>
                       (case v of
                          JObj obj \<Rightarrow>
                            (case as_number sc of
                               None \<Rightarrow> Some obj
                             | Some x \<Rightarrow>
                                 (case clamp_score x of
                                    Inl e \<Rightarrow> None
                                  | Inr c \<Rightarrow> Some (dict_set obj ''RelevanceScore'' (JInt c))))
                        | _ \<Rightarrow> None))))"

text \<open>The loop over the gathered outcomes: the only filter of this application.\<close>

fun keep_ge80 :: "pydict option list \<Rightarrow> pydict list \<Rightarrow> exn + pydict list" where
  "keep_ge80 [] res = Inr res"
| "keep_ge80 (None # out) res = keep_ge80 out res"
| "keep_ge80 (Some item # out) res =
     (if item = [] then keep_ge80 out res
      else
        (case json_get (JObj item) ''RelevanceScore'' (JInt 0) of
           Inl e \<Rightarrow> Inl e
         | Inr v \<Rightarrow>
             (case ge_py v 80 of
                Inl e \<Rightarrow> Inl e
              | Inr b \<Rightarrow> keep_ge80 out (if b then res @ [item] else res))))"

definition frontand_process_keyword_kombat ::
  "runtime \<Rightarrow> string list \<Rightarrow> string \<Rightarrow> bool \<Rightarrow> bool \<Rightarrow> exn + pydict list" where
  "frontand_process_keyword_kombat rt kws url search test =
     (case frontand_research_company rt url search of
        Inl e \<Rightarrow> Inl e
      | Inr company \<Rightarrow>
          (case score_template rt company of
             Inl e \<Rightarrow> Inl e
           | Inr tpl \<Rightarrow>
               (let batch = (if test then take 3 kws else kws);
                    out = map (score_kw rt tpl) batch
                in keep_ge80 out [])))"

text \<open>The JSON body forwarded to the sibling service.\<close>

definition proxy_body :: "FreestyleRequest \<Rightarrow> pydict" where
  "proxy_body req =
     [(''data'', JObj (map (\<lambda>(k, vs). (k, JArr vs)) (data req))),
      (''headers'', JArr (map JStr (headers req))),
      (''prompt'', JStr (prompt req)),
      (''batch_size'', JInt (batch_size req)),
      (''enable_google_search'', JBool (enable_google_search req))]"

definition proxy_url :: string where
  "proxy_url = ''https://scaile--loop-over-rows-fastapi-app.modal.run/process''"

text \<open>The second \<open>try\<close> of the unified endpoint: the proxy hop.\<close>

definition frontand_proxy_try :: "runtime \<Rightarrow> FreestyleRequest \<Rightarrow> exn + payload" where
  "frontand_proxy_try rt req =
     (case requests_post rt proxy_url (proxy_body req) of
        Inl e \<Rightarrow> Inl e
      | Inr resp \<Rightarrow>
          if status_code resp \<noteq> 200
          then Inl (HTTPError (status_code resp) (''Upstream error: '' @ resp_text resp))
          else (case resp_json resp of Inl e \<Rightarrow> Inl e | Inr j \<Rightarrow> Inr (UpstreamJson j)))"

text \<open>
  In the unified application the name \<open>_process_keyword_kombat\<close> is bound by
  \<open>@modal_app.function\<close>, so it names a Modal function object and not the function
  \<open>frontand_process_keyword_kombat\<close> above. The endpoint calls that object directly,
  without \<open>.remote\<close> or \<open>.local\<close>; the call raises, and no handler surrounds it.
\<close>

definition modal_function_called :: exn where
  "modal_function_called =
     TypeError ([sq] @ ''Function'' @ [sq] @ '' object is not callable'')"

definition frontand_process_unified :: "runtime \<Rightarrow> pydict \<Rightarrow> http_result" where
  "frontand_process_unified rt body =
     (case request_mode body of
        Inl e \<Rightarrow> Unhandled e
      | Inr m \<Rightarrow>
          if m = ''keyword-kombat'' then
            (case new_KeywordKombatRequest rt body of
               Inl e \<Rightarrow> Unhandled e
             | Inr req \<Rightarrow> Unhandled modal_function_called)
          else
            (case new_FreestyleRequest rt body of
               Inl e \<Rightarrow> HTTPException 400 (''Invalid freestyle request: '' @ str_exn rt e)
             | Inr req \<Rightarrow>
                 (case frontand_proxy_try rt req of
                    Inl e \<Rightarrow> HTTPException 500 (''Freestyle processing failed: '' @ str_exn rt e)
                  | Inr p \<Rightarrow> Returned p)))"

section \<open>Derived notions for the statements\<close>



text \<open>The log of a run in which every slice is dispatched, then awaited, in order.\<close>

definition slice_by_slice :: "(string \<times> json list) list list \<Rightarrow> event list" where
  "slice_by_slice ss = concat (map (\<lambda>s. [Dispatched s, Gathered s]) ss)"

text \<open>What one batch adds to \<open>results\<close>.\<close>

definition batch_out :: "runtime \<Rightarrow> FreestyleRequest \<Rightarrow> (string \<times> json list) list \<Rightarrow> pydict list" where
  "batch_out rt request batch = collect_outs (map (\<lambda>(k, v). run_row rt request k v) batch) []"

text \<open>The \<open>relevance_score\<close> of a returned item.\<close>

definition relevance :: "pydict \<Rightarrow> json option" where
  "relevance x = dict_get x ''RelevanceScore''"

text \<open>The test of the threshold filter on one item.\<close>

definition passes :: "int \<Rightarrow> pydict \<Rightarrow> exn + bool" where
  "passes k x =
     (case json_get (JObj x) ''RelevanceScore'' (JInt 0) of
        Inl e \<Rightarrow> Inl e
      | Inr v \<Rightarrow> ge_py v k)"

text \<open>The keywords that are scored, and \<open>results_raw\<close>: the candidates before any threshold.\<close>

definition scored_keywords :: "KeywordKombatRequest \<Rightarrow> string list" where
  "scored_keywords req = (if kk_test_mode req then take 3 (kk_keywords req) else kk_keywords req)"

definition candidates :: "runtime \<Rightarrow> KeywordKombatRequest \<Rightarrow> exn + pydict list" where
  "candidates rt req =
     (case research_company rt req of
        Inl e \<Rightarrow> Inl e
      | Inr company \<Rightarrow>
          (case score_template rt company of
             Inl e \<Rightarrow> Inl e
           | Inr tpl \<Rightarrow> Inr (truthy_outs (map (score rt tpl) (scored_keywords req)))))"

definition frontand_candidates ::
  "runtime \<Rightarrow> string list \<Rightarrow> string \<Rightarrow> bool \<Rightarrow> bool \<Rightarrow> exn + pydict list" where
  "frontand_candidates rt kws url search test =
     (case frontand_research_company rt url search of
        Inl e \<Rightarrow> Inl e
      | Inr company \<Rightarrow>
          (case score_template rt company of
             Inl e \<Rightarrow> Inl e
           | Inr tpl \<Rightarrow>
               Inr (truthy_outs (map (score_kw rt tpl) (if test then take 3 kws else kws)))))"

text \<open>The result object of one row, when the row survives.\<close>

definition row_result :: "runtime \<Rightarrow> FreestyleRequest \<Rightarrow> string \<times> json list \<Rightarrow> pydict option" where
  "row_result rt request item =
     (case run_row rt request (fst item) (snd item) of
        None \<Rightarrow> None
      | Some (row_key, obj) \<Rightarrow> Some (dict_update [(''row_key'', JStr row_key)] obj))"

section \<open>A stub runtime for the examples\<close>

definition quoted :: "string \<Rightarrow> string" where
  "quoted s = [dq] @ s @ [dq]"

text \<open>\<open>json.loads\<close> on the texts of the examples; every other text is refused.\<close>

definition stub_table :: "(string \<times> json) list" where
  "stub_table =
     [(''{}'', JObj []),
      (''{'' @ quoted ''summary'' @ '': '' @ quoted ''ok'' @ ''}'',
         JObj [(''summary'', JStr ''ok'')]),
      (''{'' @ quoted ''row_key'' @ '': '' @ quoted ''zz'' @ ''}'',
         JObj [(''row_key'', JStr ''zz'')]),
      (''[1,2]'', JArr [JInt 1, JInt 2]),
      ([nl] @ ''{'' @ quoted ''a'' @ '': 1}'' @ [nl], JObj [(''a'', JInt 1)]),
      (''{'' @ quoted ''a'' @ '': '' @ quoted ''```'' @ ''}'', JObj [(''a'', JStr ''```'')]),
      (''{'' @ quoted ''RelevanceScore'' @ '': 90}'', JObj [(''RelevanceScore'', JInt 90)]),
      (''{'' @ quoted ''RelevanceScore'' @ '': 60}'', JObj [(''RelevanceScore'', JInt 60)]),
      (''{'' @ quoted ''RelevanceScore'' @ '': 20}'', JObj [(''RelevanceScore'', JInt 20)]),
      (''{'' @ quoted ''RelevanceScore'' @ '': '' @ quoted ''high'' @ ''}'',
         JObj [(''RelevanceScore'', JStr ''high'')])]"

definition stub_loads :: "string \<Rightarrow> exn + json" where
  "stub_loads s =
     (case map_of stub_table s of
        None \<Rightarrow> Inl (JSONDecodeError ''Expecting value'')
      | Some v \<Rightarrow> Inr v)"

text \<open>\<open>json.dumps\<close> on the rows of the examples.\<close>

definition stub_dumps :: "json \<Rightarrow> string" where
  "stub_dumps v =
     (if v = JObj [(''col'', JStr ''a'')] then ''{'' @ quoted ''col'' @ '': '' @ quoted ''a'' @ ''}''
      else if v = JObj [(''col'', JStr ''b'')] then ''{'' @ quoted ''col'' @ '': '' @ quoted ''b'' @ ''}''
      else ''{}'')"

text \<open>
  A strict reading of the two request classes: a field is accepted when its JSON value
  has the declared type, an absent optional field takes its declared default. pydantic
  accepts these bodies with the same result; it also converts some values of other
  types (the string \<open>"5"\<close> for an \<open>int\<close>), which this reading refuses.
\<close>

fun json_str_list :: "json list \<Rightarrow> string list option" where
  "json_str_list [] = Some []"
| "json_str_list (JStr s # vs) = map_option ((#) s) (json_str_list vs)"
| "json_str_list (_ # vs) = None"

fun json_rows :: "pydict \<Rightarrow> (string \<times> json list) list option" where
  "json_rows [] = Some []"
| "json_rows ((k, JArr vs) # d) = map_option ((#) (k, vs)) (json_rows d)"
| "json_rows (_ # d) = None"

definition field_int :: "pydict \<Rightarrow> string \<Rightarrow> int \<Rightarrow> int option" where
  "field_int body k d =
     (case dict_get body k of None \<Rightarrow> Some d | Some (JInt n) \<Rightarrow> Some n | Some _ \<Rightarrow> None)"

definition field_bool :: "pydict \<Rightarrow> string \<Rightarrow> bool \<Rightarrow> bool option" where
  "field_bool body k d =
     (case dict_get body k of None \<Rightarrow> Some d | Some (JBool b) \<Rightarrow> Some b | Some _ \<Rightarrow> None)"

definition field_str :: "pydict \<Rightarrow> string \<Rightarrow> string option \<Rightarrow> string option" where
  "field_str body k d =
     (case dict_get body k of None \<Rightarrow> d | Some (JStr s) \<Rightarrow> Some s | Some _ \<Rightarrow> None)"

definition field_opt_str :: "pydict \<Rightarrow> string \<Rightarrow> string option option" where
  "field_opt_str body k =
     (case dict_get body k of
        None \<Rightarrow> Some None
      | Some JNull \<Rightarrow> Some None
      | Some (JStr s) \<Rightarrow> Some (Some s)
      | Some _ \<Rightarrow> None)"

definition stub_new_FreestyleRequest :: "pydict \<Rightarrow> exn + FreestyleRequest" where
  "stub_new_FreestyleRequest body =
     (case (case dict_get body ''data'' of Some (JObj d) \<Rightarrow> json_rows d | _ \<Rightarrow> None,
            case dict_get body ''headers'' of Some (JArr hs) \<Rightarrow> json_str_list hs | _ \<Rightarrow> None,
            field_str body ''prompt'' None,
            field_int body ''batch_size'' 10,
            field_bool body ''enable_google_search'' False,
            field_bool body ''test_mode'' False,
            field_opt_str body ''mode'') of
        (Some rows, Some hs, Some p, Some bs, Some gs, Some tm, Some md) \<Rightarrow>
          Inr \<lparr>data = rows, headers = hs, prompt = p, batch_size = bs,
               enable_google_search = gs, test_mode = tm, mode = md\<rparr>
      | _ \<Rightarrow> Inl (ValidationError ''validation error for FreestyleRequest''))"

definition stub_new_KeywordKombatRequest :: "pydict \<Rightarrow> exn + KeywordKombatRequest" where
  "stub_new_KeywordKombatRequest body =
     (case (case dict_get body ''keywords'' of Some (JArr ks) \<Rightarrow> json_str_list ks | _ \<Rightarrow> None,
            field_str body ''company_url'' None,
            field_str body ''keyword_variable'' (Some ''keyword''),
            field_bool body ''enable_google_search'' False,
            field_bool body ''test_mode'' False,
            field_opt_str body ''mode'') of
        (Some ks, Some url, Some kv, Some gs, Some tm, Some md) \<Rightarrow>
          Inr \<lparr>kk_keywords = ks, company_url = url, keyword_variable = kv,
               kk_enable_google_search = gs, kk_test_mode = tm, kk_mode = md\<rparr>
      | _ \<Rightarrow> Inl (ValidationError ''validation error for KeywordKombatRequest''))"

text \<open>The stub runtime around a model; the sibling service is unreachable in it.\<close>

definition stub_runtime :: "(string \<Rightarrow> exn + string option) \<Rightarrow> runtime" where
  "stub_runtime model =
     \<lparr>generate_content = model,
      json_loads = stub_loads,
      json_dumps = stub_dumps,
      py_str = (\<lambda>v. ''None''),
      new_FreestyleRequest = stub_new_FreestyleRequest,
      new_KeywordKombatRequest = stub_new_KeywordKombatRequest,
      requests_post = (\<lambda>url body. Inl (ModelError ''connection refused'')),
      str_HTTPException = (\<lambda>c d. d)\<rparr>"

text \<open>
  A model for score mode: the research prompt gets a reply that is not JSON, a scoring
  prompt gets the reply listed for its keyword.
\<close>

definition kk_model :: "(string \<times> string) list \<Rightarrow> string \<Rightarrow> exn + string option" where
  "kk_model replies p =
     (if prefix ''INPUT:'' p then
        (case find (\<lambda>(kw, r). contains_py (''Keyword: '' @ quoted kw) p) replies of
           Some (kw, r) \<Rightarrow> Inr (Some r)
         | None \<Rightarrow> Inl (ModelError ''no reply''))
      else Inr (Some ''I could not find the company.''))"

definition reply_score :: "string \<Rightarrow> string" where
  "reply_score v = ''{'' @ quoted ''RelevanceScore'' @ '': '' @ v @ ''}''"

definition kk_request :: "string list \<Rightarrow> bool \<Rightarrow> KeywordKombatRequest" where
  "kk_request kws test =
     \<lparr>kk_keywords = kws, company_url = ''https://acme.io/about'', keyword_variable = ''keyword'',
      kk_enable_google_search = False, kk_test_mode = test, kk_mode = Some ''keyword-kombat''\<rparr>"

text \<open>A model that gives the same reply to every prompt.\<close>

definition always :: "string \<Rightarrow> string \<Rightarrow> exn + string option" where
  "always reply p = Inr (Some reply)"


section \<open>Row mode: the loop as a whole\<close>

lemma collect_outs_append: "collect_outs outs res = res @ collect_outs outs []"
proof (induction outs arbitrary: res)
  case Nil
  show ?case by simp
next
  case (Cons out outs)
  show ?case
  proof (cases out)
    case None
    then show ?thesis using Cons.IH[of res] by simp
  next
    case (Some p)
    obtain k obj where p: "p = (k, obj)" by (cases p)
    let ?r = "dict_update [(''row_key'', JStr k)] obj"
    have "collect_outs (out # outs) res = (res @ [?r]) @ collect_outs outs []"
      using Some p Cons.IH[of "res @ [?r]"] by simp
    moreover have "collect_outs (out # outs) [] = [?r] @ collect_outs outs []"
      using Some p Cons.IH[of "[?r]"] by simp
    ultimately show ?thesis by simp
  qed
qed

lemma collect_outs_map_filter:
  "collect_outs (map (\<lambda>(k, v). run_row rt request k v) batch) [] =
   List.map_filter (row_result rt request) batch"
proof (induction batch)
  case Nil
  show ?case by simp
next
  case (Cons item batch)
  obtain k v where item: "item = (k, v)" by (cases item)
  show ?case
  proof (cases "run_row rt request k v")
    case None
    then show ?thesis using Cons.IH item by (simp add: row_result_def)
  next
    case (Some p)
    obtain k' obj where p: "p = (k', obj)" by (cases p)
    have "collect_outs (map (\<lambda>(k, v). run_row rt request k v) (item # batch)) [] =
          [dict_update [(''row_key'', JStr k')] obj] @
          collect_outs (map (\<lambda>(k, v). run_row rt request k v) batch) []"
      using Some p item
        collect_outs_append[of "map (\<lambda>(k, v). run_row rt request k v) batch"
          "[dict_update [(''row_key'', JStr k')] obj]"]
      by simp
    then show ?thesis using Cons.IH item Some p by (simp add: row_result_def)
  qed
qed

lemma batch_out_map_filter:
  "batch_out rt request batch = List.map_filter (row_result rt request) batch"
  by (simp add: batch_out_def collect_outs_map_filter)

lemma batch_loop_concat:
  "batch_loop rt request items starts res trace =
   (res @ concat (map (\<lambda>i. batch_out rt request (slice items i (i + nat (batch_size request)))) starts),
    trace @ slice_by_slice (map (\<lambda>i. slice items i (i + nat (batch_size request))) starts))"
proof (induction starts arbitrary: res trace)
  case Nil
  show ?case by (simp add: slice_by_slice_def)
next
  case (Cons i starts)
  show ?case
    using Cons.IH collect_outs_append[of _ res]
    by (simp add: batch_out_def Let_def slice_by_slice_def)
qed

lemma concat_slices_range_up:
  "0 < step \<Longrightarrow>
   concat (map (\<lambda>j. slice items j (j + step)) (range_up i (length items) step)) = drop i items"
proof (induction i "length items" step rule: range_up.induct)
  case (1 i step)
  show ?case
  proof (cases "i < length items")
    case True
    have "range_up i (length items) step = i # range_up (i + step) (length items) step"
      using True 1(2) by (subst range_up.simps) simp
    moreover have
      "concat (map (\<lambda>j. slice items j (j + step)) (range_up (i + step) (length items) step))
        = drop (i + step) items"
      using 1 True by simp
    moreover have "slice items i (i + step) @ drop (i + step) items = drop i items"
    proof -
      have "drop (i + step) items = drop step (drop i items)" by (simp add: add.commute)
      then show ?thesis by (simp add: slice_def del: drop_drop)
    qed
    ultimately show ?thesis by simp
  next
    case False
    then show ?thesis by (subst range_up.simps) simp
  qed
qed



lemma map_filter_append:
  "List.map_filter f (xs @ ys) = List.map_filter f xs @ List.map_filter f ys"
  by (simp add: List.map_filter_def)

lemma map_filter_concat: "List.map_filter f (concat xss) = concat (map (List.map_filter f) xss)"
  by (induction xss) (simp_all add: map_filter_append)




lemma process_rows_positive:
  assumes "0 < batch_size request"
  shows "process_rows_freestyle rt request =
         Inr \<lparr>success = True,
              results = List.map_filter (row_result rt request) (data request),
              processed_count = length (List.map_filter (row_result rt request) (data request)),
              total_count = length (data request)\<rparr>"
proof -
  let ?bs = "nat (batch_size request)"
  let ?starts = "range_up 0 (length (data request)) ?bs"
  have pos: "0 < ?bs" using assms by simp
  have "fst (batch_loop rt request (data request) ?starts [] []) =
        concat (map (List.map_filter (row_result rt request))
                  (map (\<lambda>i. slice (data request) i (i + ?bs)) ?starts))"
    by (simp add: batch_loop_concat batch_out_map_filter comp_def)
  also have "\<dots> = List.map_filter (row_result rt request)
                    (concat (map (\<lambda>i. slice (data request) i (i + ?bs)) ?starts))"
    by (simp only: map_filter_concat)
  also have "\<dots> = List.map_filter (row_result rt request) (data request)"
    using concat_slices_range_up[OF pos, of "data request" 0] by simp
  finally show ?thesis
    using assms
    by (auto simp: process_rows_freestyle_def process_rows_freestyle_run_def range_py_def Let_def
        split: prod.splits)
qed

lemma filter_length_le: "length (List.map_filter f xs) \<le> length xs"
  by (simp add: List.map_filter_def)

lemma map_filter_order:
  assumes "i < j" "j < length xs" "f (xs ! i) = Some a" "f (xs ! j) = Some b"
  shows "\<exists>i' j'. i' < j' \<and> j' < length (List.map_filter f xs) \<and>
           List.map_filter f xs ! i' = a \<and> List.map_filter f xs ! j' = b"
proof -
  let ?A = "List.map_filter f (take i xs)"
  let ?B = "List.map_filter f (take (j - Suc i) (drop (Suc i) xs))"
  let ?C = "List.map_filter f (drop (Suc j) xs)"
  have i: "i < length xs" using assms by simp
  have xs1: "xs = take i xs @ xs ! i # drop (Suc i) xs"
    using i by (simp add: id_take_nth_drop)
  have j': "j - Suc i < length (drop (Suc i) xs)" using assms by simp
  have "drop (Suc i) xs =
        take (j - Suc i) (drop (Suc i) xs) @ drop (Suc i) xs ! (j - Suc i) #
        drop (Suc (j - Suc i)) (drop (Suc i) xs)"
    using j' by (rule id_take_nth_drop)
  moreover have "drop (Suc i) xs ! (j - Suc i) = xs ! j" using assms by simp
  moreover have "drop (Suc (j - Suc i)) (drop (Suc i) xs) = drop (Suc j) xs"
    using assms by simp
  ultimately have xs2: "drop (Suc i) xs = take (j - Suc i) (drop (Suc i) xs) @ xs ! j # drop (Suc j) xs"
    by simp
  have "List.map_filter f xs = ?A @ List.map_filter f (xs ! i # drop (Suc i) xs)"
    using xs1 map_filter_append[of f "take i xs" "xs ! i # drop (Suc i) xs"] by simp
  also have "\<dots> = ?A @ a # List.map_filter f (drop (Suc i) xs)"
    using assms(3) by simp
  also have "List.map_filter f (drop (Suc i) xs) = ?B @ List.map_filter f (xs ! j # drop (Suc j) xs)"
    using xs2 map_filter_append[of f "take (j - Suc i) (drop (Suc i) xs)" "xs ! j # drop (Suc j) xs"]
    by simp
  also have "List.map_filter f (xs ! j # drop (Suc j) xs) = b # ?C"
    using assms(4) by simp
  finally have eq: "List.map_filter f xs = ?A @ a # ?B @ b # ?C" .
  have "length ?A < length ?A + Suc (length ?B)" by simp
  moreover have "length ?A + Suc (length ?B) < length (List.map_filter f xs)"
    by (subst eq) simp
  moreover have "List.map_filter f xs ! length ?A = a"
    by (subst eq) simp
  moreover have "List.map_filter f xs ! (length ?A + Suc (length ?B)) = b"
    by (subst eq) (simp add: nth_append)
  ultimately show ?thesis by blast
qed


section \<open>Row mode: the claims\<close>


definition rows2 :: FreestyleRequest where
  "rows2 =
     \<lparr>data = [(''r1'', [JStr ''a'']), (''r2'', [JStr ''b''])],
      headers = [''col''], prompt = ''Summarise'', batch_size = 10,
      enable_google_search = False, test_mode = False, mode = None\<rparr>"

definition reply_summary :: string where
  "reply_summary = ''{'' @ quoted ''summary'' @ '': '' @ quoted ''ok'' @ ''}''"

definition reply_row_key :: string where
  "reply_row_key = ''{'' @ quoted ''row_key'' @ '': '' @ quoted ''zz'' @ ''}''"



text \<open>
  C8. With a positive \<open>batch_size\<close> the results are the result objects of the rows that
  survive, in the order of the rows in the request: when the row at position \<open>i\<close> and
  the row at a later position \<open>j\<close> both survive, the object of the first stands before
  the object of the second in \<open>results\<close>.
\<close>

theorem results_keep_input_order:
  assumes "0 < batch_size request"
  shows "\<exists>resp. process_rows_freestyle rt request = Inr resp
           \<and> results resp = List.map_filter (row_result rt request) (data request)
           \<and> (\<forall>i j a b. i < j \<and> j < length (data request)
                  \<and> row_result rt request (data request ! i) = Some a
                  \<and> row_result rt request (data request ! j) = Some b
                \<longrightarrow> (\<exists>i' j'. i' < j' \<and> j' < length (results resp)
                       \<and> results resp ! i' = a \<and> results resp ! j' = b))"
proof -
  let ?res = "List.map_filter (row_result rt request) (data request)"
  let ?resp = "\<lparr>success = True, results = ?res, processed_count = length ?res,
                 total_count = length (data request)\<rparr>"
  have "process_rows_freestyle rt request = Inr ?resp"
    using assms by (rule process_rows_positive)
  moreover have "results ?resp = ?res" by simp
  moreover have "\<forall>i j a b. i < j \<and> j < length (data request)
                  \<and> row_result rt request (data request ! i) = Some a
                  \<and> row_result rt request (data request ! j) = Some b
                \<longrightarrow> (\<exists>i' j'. i' < j' \<and> j' < length (results ?resp)
                       \<and> results ?resp ! i' = a \<and> results ?resp ! j' = b)"
  proof (intro allI impI)
    fix i j a b
    assume "i < j \<and> j < length (data request)
             \<and> row_result rt request (data request ! i) = Some a
             \<and> row_result rt request (data request ! j) = Some b"
    then show "\<exists>i' j'. i' < j' \<and> j' < length (results ?resp)
                 \<and> results ?resp ! i' = a \<and> results ?resp ! j' = b"
      using map_filter_order[of i j "data request" "row_result rt request" a b] by simp
  qed
  ultimately show ?thesis by blast
qed

theorem results_keep_input_order_witness:
  "0 < batch_size rows2 \<and>
   (\<exists>resp. process_rows_freestyle (stub_runtime (always reply_summary)) rows2 = Inr resp \<and>
      results resp = [[(''row_key'', JStr ''r1''), (''summary'', JStr ''ok'')],
                      [(''row_key'', JStr ''r2''), (''summary'', JStr ''ok'')]])"
proof -
  have h: "0 < batch_size rows2" by (simp add: rows2_def)
  have e: "List.map_filter (row_result (stub_runtime (always reply_summary)) rows2) (data rows2) =
           [[(''row_key'', JStr ''r1''), (''summary'', JStr ''ok'')],
            [(''row_key'', JStr ''r2''), (''summary'', JStr ''ok'')]]"
    by code_simp
  from results_keep_input_order[OF h, of "stub_runtime (always reply_summary)"]
  show ?thesis using h e by auto
qed

text \<open>
  C3, at an input where the code departs from it: the reply of the model is an object
  with a field \<open>row_key\<close>, which takes the place of the key of the row, so the
  \<open>row_key\<close> of the returned objects is not a key of the request.
\<close>

theorem row_key_overwritten_by_reply:
  "process_rows_freestyle (stub_runtime (always reply_row_key)) rows2 =
     Inr \<lparr>success = True,
          results = [[(''row_key'', JStr ''zz'')], [(''row_key'', JStr ''zz'')]],
          processed_count = 2, total_count = 2\<rparr>
   \<and> ''zz'' \<notin> set (map fst (data rows2))"
  by code_simp


section \<open>The endpoints: the claims\<close>

definition body_rows :: "int \<Rightarrow> pydict" where
  "body_rows bs =
     [(''data'', JObj [(''r1'', JArr [JStr ''a''])]), (''headers'', JArr [JStr ''col'']),
      (''prompt'', JStr ''Summarise''), (''batch_size'', JInt bs)]"

definition request_rows :: "int \<Rightarrow> FreestyleRequest" where
  "request_rows bs =
     \<lparr>data = [(''r1'', [JStr ''a''])], headers = [''col''], prompt = ''Summarise'',
      batch_size = bs, enable_google_search = False, test_mode = False, mode = None\<rparr>"

text \<open>A row request without its \<open>prompt\<close>, and a score request without its \<open>company_url\<close>.\<close>

definition body_no_prompt :: pydict where
  "body_no_prompt = [(''data'', JObj [(''r1'', JArr [JStr ''a''])]), (''headers'', JArr [JStr ''col''])]"

definition body_no_url :: pydict where
  "body_no_url = [(''mode'', JStr ''keyword-kombat''), (''keywords'', JArr [JStr ''seo''])]"

lemma strip_freestyle: "strip ''freestyle'' = ''freestyle''"
  by code_simp

lemma request_mode_freestyle_stub: "request_mode (body_rows bs) = Inr ''freestyle''"
  by (simp add: body_rows_def request_mode_def dict_get_def strip_freestyle)

text \<open>
  C9. \<open>batch_size\<close> is any integer of the request. With \<open>batch_size = 0\<close> the range of the
  loop raises, for every rows mapping, and the endpoint answers 500; with a negative
  \<open>batch_size\<close> the loop body never runs and the response is a success with no results
  and \<open>processed_count = 0\<close>.
\<close>

theorem batch_size_not_positive:
  "(batch_size request = 0 \<longrightarrow>
      process_rows_freestyle rt request = Inl (ValueError ''range() arg 3 must not be zero''))
   \<and> (batch_size request < 0 \<longrightarrow>
      process_rows_freestyle rt request =
        Inr \<lparr>success = True, results = [], processed_count = 0,
             total_count = length (data request)\<rparr>)
   \<and> (request_mode body = Inr m \<and> m \<noteq> ''keyword-kombat''
        \<and> new_FreestyleRequest rt body = Inr request \<longrightarrow>
        (batch_size request = 0 \<longrightarrow>
           process_unified rt body =
             HTTPException 500 ''Processing failed: range() arg 3 must not be zero'')
        \<and> (batch_size request < 0 \<longrightarrow>
           process_unified rt body =
             Returned (RowsResult \<lparr>success = True, results = [], processed_count = 0,
                                   total_count = length (data request)\<rparr>)))"
proof -
  have zero: "process_rows_freestyle rt request = Inl (ValueError ''range() arg 3 must not be zero'')"
    if "batch_size request = 0"
    using that
    by (simp add: process_rows_freestyle_def process_rows_freestyle_run_def range_py_def)
  have neg: "process_rows_freestyle rt request =
        Inr \<lparr>success = True, results = [], processed_count = 0,
             total_count = length (data request)\<rparr>"
    if "batch_size request < 0"
    using that
    by (simp add: process_rows_freestyle_def process_rows_freestyle_run_def range_py_def)
  have ep0: "process_unified rt body =
             HTTPException 500 ''Processing failed: range() arg 3 must not be zero''"
    if "request_mode body = Inr m" "m \<noteq> ''keyword-kombat''"
       "new_FreestyleRequest rt body = Inr request" "batch_size request = 0"
    using that zero by (simp add: process_unified_def process_unified_try_def)
  have epn: "process_unified rt body =
             Returned (RowsResult \<lparr>success = True, results = [], processed_count = 0,
                                   total_count = length (data request)\<rparr>)"
    if "request_mode body = Inr m" "m \<noteq> ''keyword-kombat''"
       "new_FreestyleRequest rt body = Inr request" "batch_size request < 0"
    using that neg by (simp add: process_unified_def process_unified_try_def)
  show ?thesis using zero neg ep0 epn by blast
qed

theorem batch_size_not_positive_witness:
  "batch_size (request_rows 0) = 0 \<and> data (request_rows 0) \<noteq> []
   \<and> new_FreestyleRequest (stub_runtime (always reply_summary)) (body_rows 0) = Inr (request_rows 0)
   \<and> process_unified (stub_runtime (always reply_summary)) (body_rows 0) =
       HTTPException 500 ''Processing failed: range() arg 3 must not be zero''
   \<and> batch_size (request_rows (- 1)) < 0
   \<and> new_FreestyleRequest (stub_runtime (always reply_summary)) (body_rows (- 1)) = Inr (request_rows (- 1))
   \<and> process_unified (stub_runtime (always reply_summary)) (body_rows (- 1)) =
       Returned (RowsResult \<lparr>success = True, results = [], processed_count = 0, total_count = 1\<rparr>)"
proof -
  let ?rt = "stub_runtime (always reply_summary)"
  have v: "new_FreestyleRequest ?rt (body_rows bs) = Inr (request_rows bs)" for bs
    by (simp add: stub_runtime_def stub_new_FreestyleRequest_def body_rows_def request_rows_def
        dict_get_def field_str_def field_int_def field_bool_def field_opt_str_def)
  have m: "request_mode (body_rows bs) = Inr ''freestyle'' \<and> ''freestyle'' \<noteq> ''keyword-kombat''" for bs
    by (simp add: request_mode_freestyle_stub)
  have z: "batch_size (request_rows 0) = 0" "batch_size (request_rows (- 1)) < 0"
          "data (request_rows 0) \<noteq> []" "length (data (request_rows (- 1))) = 1"
    by (simp_all add: request_rows_def)
  show ?thesis
    using batch_size_not_positive[where request = "request_rows 0" and rt = ?rt
            and body = "body_rows 0" and m = "''freestyle''"]
          batch_size_not_positive[where request = "request_rows (- 1)" and rt = ?rt
            and body = "body_rows (- 1)" and m = "''freestyle''"]
          v m z
    by simp
qed

text \<open>
  C5 as stated fails in the direct application: the constructor of the request runs
  inside the \<open>try\<close> whose handler answers 500, so a body without its \<open>prompt\<close> is
  answered with 500 and not with 400.
\<close>

theorem validation_failure_is_500_in_direct_app:
  "new_FreestyleRequest (stub_runtime (always reply_summary)) body_no_prompt =
     Inl (ValidationError ''validation error for FreestyleRequest'')
   \<and> process_unified (stub_runtime (always reply_summary)) body_no_prompt =
     HTTPException 500 ''Processing failed: validation error for FreestyleRequest''
   \<and> http_status (process_unified (stub_runtime (always reply_summary)) body_no_prompt) \<noteq> 400"
  by code_simp

text \<open>
  C5, amended. In the unified application a row-mode body that the constructor of
  the request refuses is answered with 400, whatever the model and the sibling service
  would do, and an exception of the proxy hop is answered with 500 and a detail. In
  the direct application there is no 400: a body that the constructor refuses, in
  either mode, is answered with 500 and a detail, whatever the model would do, and so
  is every exception of the processing of either mode.
\<close>

theorem validation_and_failure_statuses:
  assumes "request_mode body = Inr m"
  shows "(m \<noteq> ''keyword-kombat'' \<and> new_FreestyleRequest rt body = Inl e \<longrightarrow>
            frontand_process_unified (rt\<lparr>generate_content := g, requests_post := p\<rparr>) body =
              HTTPException 400 (''Invalid freestyle request: '' @ str_exn rt e))
       \<and> (m \<noteq> ''keyword-kombat'' \<and> new_FreestyleRequest rt body = Inr req
            \<and> frontand_proxy_try rt req = Inl e \<longrightarrow>
            frontand_process_unified rt body =
              HTTPException 500 (''Freestyle processing failed: '' @ str_exn rt e))
       \<and> (m \<noteq> ''keyword-kombat'' \<and> new_FreestyleRequest rt body = Inl e \<longrightarrow>
            process_unified (rt\<lparr>generate_content := g\<rparr>) body =
              HTTPException 500 (''Processing failed: '' @ str_exn rt e))
       \<and> (m = ''keyword-kombat'' \<and> new_KeywordKombatRequest rt body = Inl e \<longrightarrow>
            process_unified (rt\<lparr>generate_content := g\<rparr>) body =
              HTTPException 500 (''Processing failed: '' @ str_exn rt e))
       \<and> (m \<noteq> ''keyword-kombat'' \<and> new_FreestyleRequest rt body = Inr req
            \<and> process_rows_freestyle rt req = Inl e \<longrightarrow>
            process_unified rt body = HTTPException 500 (''Processing failed: '' @ str_exn rt e))
       \<and> (m = ''keyword-kombat'' \<and> new_KeywordKombatRequest rt body = Inr kreq
            \<and> process_keyword_kombat rt kreq = Inl e \<longrightarrow>
            process_unified rt body = HTTPException 500 (''Processing failed: '' @ str_exn rt e))"
proof -
  have str: "str_exn (rt\<lparr>generate_content := g, requests_post := p\<rparr>) e = str_exn rt e"
            "str_exn (rt\<lparr>generate_content := g\<rparr>) e = str_exn rt e"
    by (cases e; simp)+
  show ?thesis
    using assms str
    by (simp add: frontand_process_unified_def process_unified_def process_unified_try_def)
qed

theorem validation_and_failure_statuses_witness:
  "request_mode body_no_prompt = Inr ''freestyle''
   \<and> frontand_process_unified (stub_runtime (always reply_summary)) body_no_prompt =
       HTTPException 400 ''Invalid freestyle request: validation error for FreestyleRequest''
   \<and> request_mode body_no_url = Inr ''keyword-kombat''
   \<and> process_unified (stub_runtime (always reply_summary)) body_no_url =
       HTTPException 500 ''Processing failed: validation error for KeywordKombatRequest''
   \<and> frontand_process_unified (stub_runtime (always reply_summary)) (body_rows 10) =
       HTTPException 500 ''Freestyle processing failed: connection refused''
   \<and> process_unified (stub_runtime (always reply_summary)) (body_rows 0) =
       HTTPException 500 ''Processing failed: range() arg 3 must not be zero''"
proof -
  let ?rt = "stub_runtime (always reply_summary)"
  let ?e = "ValidationError ''validation error for FreestyleRequest''"
  let ?k = "ValidationError ''validation error for KeywordKombatRequest''"
  have upd: "?rt\<lparr>generate_content := generate_content ?rt, requests_post := requests_post ?rt\<rparr> = ?rt"
            "?rt\<lparr>generate_content := generate_content ?rt\<rparr> = ?rt"
    by simp_all
  have m1: "request_mode body_no_prompt = Inr ''freestyle''" by code_simp
  have m2: "request_mode body_no_url = Inr ''keyword-kombat''" by code_simp
  have m3: "request_mode (body_rows bs) = Inr ''freestyle''" for bs
    by (rule request_mode_freestyle_stub)
  have v1: "new_FreestyleRequest ?rt body_no_prompt = Inl ?e" by code_simp
  have v2: "new_KeywordKombatRequest ?rt body_no_url = Inl ?k" by code_simp
  have v3: "new_FreestyleRequest ?rt (body_rows 10) = Inr (request_rows 10)" by code_simp
  have v4: "new_FreestyleRequest ?rt (body_rows 0) = Inr (request_rows 0)" by code_simp
  have p3: "frontand_proxy_try ?rt (request_rows 10) = Inl (ModelError ''connection refused'')"
    by code_simp
  have p4: "process_rows_freestyle ?rt (request_rows 0) =
            Inl (ValueError ''range() arg 3 must not be zero'')"
    by code_simp
  have ne: "''freestyle'' \<noteq> ''keyword-kombat''" by simp
  note a = validation_and_failure_statuses[OF m1, where rt = ?rt and e = ?e
              and g = "generate_content ?rt" and p = "requests_post ?rt", unfolded upd]
  note b = validation_and_failure_statuses[OF m2, where rt = ?rt and e = ?k
              and g = "generate_content ?rt" and p = "requests_post ?rt", unfolded upd]
  note c = validation_and_failure_statuses[OF m3, where rt = ?rt
              and e = "ModelError ''connection refused''"
              and g = "generate_content ?rt" and p = "requests_post ?rt"
              and req = "request_rows 10", unfolded upd]
  note d = validation_and_failure_statuses[OF m3, where rt = ?rt
              and e = "ValueError ''range() arg 3 must not be zero''"
              and g = "generate_content ?rt" and p = "requests_post ?rt"
              and req = "request_rows 0", unfolded upd]
  show ?thesis
    using a b c d m1 m2 v1 v2 v3 v4 p3 p4 ne by simp
qed


section \<open>Score mode: clamping and filtering\<close>

lemma clamp_score_range:
  assumes "clamp_score x = Inr c"
  shows "10 \<le> c \<and> c \<le> 100"
proof (cases x)
  case (I n)
  then show ?thesis
    using assms by (auto simp: clamp_score_def min_py_def max_py_def split: if_splits)
next
  case (F f)
  show ?thesis
  proof (cases f)
    case (Finite q)
    have "10 \<le> \<lfloor>q\<rfloor>" if "10 < q" using that by (simp add: le_floor_iff)
    moreover have "\<lfloor>q\<rfloor> \<le> 100" if "q < 100" using that by (simp add: floor_le_iff)
    ultimately show ?thesis
      using assms F Finite
      by (auto simp: clamp_score_def min_py_def max_py_def split: if_splits)
  qed (use assms F in \<open>auto simp: clamp_score_def min_py_def max_py_def split: if_splits\<close>)
qed

lemma clamp_score_total: "\<exists>c. clamp_score x = Inr c"
proof (cases x)
  case (I n)
  then show ?thesis by (simp add: clamp_score_def min_py_def max_py_def)
next
  case (F f)
  then show ?thesis
    by (cases f) (simp_all add: clamp_score_def min_py_def max_py_def)
qed

lemma dict_get_dict_set: "dict_get (dict_set d k v) k = Some v"
  by (induction d) (auto simp: dict_get_def)

lemma json_get_obj: "json_get (JObj d) k dflt = Inr (case dict_get d k of None \<Rightarrow> dflt | Some x \<Rightarrow> x)"
  by (simp add: json_get_def)

text \<open>What \<open>score\<close> returns: the score clamped, or a value that is not a number left alone.\<close>

lemma score_result:
  assumes "score rt tpl kw = Some obj"
  shows "(\<exists>c. relevance obj = Some (JInt c) \<and> 10 \<le> c \<and> c \<le> 100)
       \<or> (\<exists>v. relevance obj = Some v \<and> as_number v = None)"
proof -
  from assms obtain r d sc where
    d: "json_get (JObj d) ''RelevanceScore'' (JInt 0) = Inr sc"
    and res: "(case as_number sc of
                 None \<Rightarrow> Some d
               | Some x \<Rightarrow> (case clamp_score x of Inl e \<Rightarrow> None
                             | Inr c \<Rightarrow> Some (dict_set d ''RelevanceScore'' (JInt c)))) = Some obj"
    by (auto simp: score_def Let_def json_get_def split: sum.splits json.splits)
  show ?thesis
  proof (cases "as_number sc")
    case None
    then have "obj = d" using res by simp
    moreover have "dict_get d ''RelevanceScore'' = Some sc"
      using d None by (auto simp: json_get_obj split: option.splits)
    ultimately show ?thesis using None by (auto simp: relevance_def)
  next
    case (Some x)
    then obtain c where c: "clamp_score x = Inr c" "obj = dict_set d ''RelevanceScore'' (JInt c)"
      using res by (auto split: sum.splits)
    then show ?thesis
      using clamp_score_range[OF c(1)] by (auto simp: relevance_def dict_get_dict_set)
  qed
qed

text \<open>\<open>score_kw\<close> also returns objects with no score at all.\<close>

lemma score_kw_result:
  assumes "score_kw rt tpl kw = Some obj"
  shows "(\<exists>c. relevance obj = Some (JInt c) \<and> 10 \<le> c \<and> c \<le> 100)
       \<or> relevance obj = None
       \<or> (\<exists>v. relevance obj = Some v \<and> as_number v = None)"
proof -
  from assms obtain r d sc where
    d: "json_get (JObj d) ''RelevanceScore'' JNull = Inr sc"
    and res: "(case as_number sc of
                 None \<Rightarrow> Some d
               | Some x \<Rightarrow> (case clamp_score x of Inl e \<Rightarrow> None
                             | Inr c \<Rightarrow> Some (dict_set d ''RelevanceScore'' (JInt c)))) = Some obj"
    by (auto simp: score_kw_def Let_def json_get_def split: sum.splits json.splits)
  show ?thesis
  proof (cases "as_number sc")
    case None
    then have "obj = d" using res by simp
    moreover have "dict_get d ''RelevanceScore'' = None \<or> dict_get d ''RelevanceScore'' = Some sc"
      using d by (auto simp: json_get_obj split: option.splits)
    ultimately show ?thesis using None by (auto simp: relevance_def)
  next
    case (Some x)
    then obtain c where c: "clamp_score x = Inr c" "obj = dict_set d ''RelevanceScore'' (JInt c)"
      using res by (auto split: sum.splits)
    then show ?thesis
      using clamp_score_range[OF c(1)] by (auto simp: relevance_def dict_get_dict_set)
  qed
qed

lemma truthy_outs_set:
  "x \<in> set (truthy_outs outs) \<longleftrightarrow> Some x \<in> set outs \<and> x \<noteq> []"
  by (induction outs) (auto simp: truthy_outs_def split: option.splits)

lemma truthy_outs_length: "length (truthy_outs outs) \<le> length outs"
  by (simp add: truthy_outs_def filter_length_le)

lemma passes_int: "relevance x = Some (JInt c) \<Longrightarrow> passes k x = Inr (k \<le> c)"
  by (simp add: passes_def json_get_obj relevance_def ge_py_def)

lemma passes_TypeError:
  "relevance x = Some v \<Longrightarrow> as_number v = None \<Longrightarrow> \<exists>m. passes k x = Inl (TypeError m)"
  by (simp add: passes_def json_get_obj relevance_def ge_py_def)

lemma passes_missing: "relevance x = None \<Longrightarrow> passes k x = Inr (k \<le> 0)"
  by (simp add: passes_def json_get_obj relevance_def ge_py_def)

lemma passes_error_is_TypeError: "passes k x = Inl e \<Longrightarrow> \<exists>m. e = TypeError m"
  by (auto simp: passes_def json_get_obj ge_py_def split: option.splits num.splits)

lemma filter_ge_Cons:
  "filter_ge k (x # xs) =
     (case passes k x of
        Inl e \<Rightarrow> Inl e
      | Inr b \<Rightarrow> (case filter_ge k xs of Inl e \<Rightarrow> Inl e | Inr r \<Rightarrow> Inr (if b then x # r else r)))"
  by (simp add: passes_def split: sum.splits)

lemma filter_ge_Inr:
  "filter_ge k xs = Inr r \<Longrightarrow>
   r = filter (\<lambda>x. passes k x = Inr True) xs \<and> (\<forall>x \<in> set xs. \<exists>b. passes k x = Inr b)"
proof (induction xs arbitrary: r)
  case Nil
  then show ?case by simp
next
  case (Cons x xs)
  from Cons.prems obtain b r' where
    b: "passes k x = Inr b" and r': "filter_ge k xs = Inr r'" and r: "r = (if b then x # r' else r')"
    by (auto simp: filter_ge_Cons simp del: filter_ge.simps split: sum.splits)
  from Cons.IH[OF r'] show ?case using b r by auto
qed

lemma filter_ge_total:
  "(\<forall>x \<in> set xs. \<exists>b. passes k x = Inr b) \<Longrightarrow> \<exists>r. filter_ge k xs = Inr r"
proof (induction xs)
  case Nil
  show ?case by simp
next
  case (Cons x xs)
  then obtain b r where "passes k x = Inr b" "filter_ge k xs = Inr r" by auto
  then show ?case by (simp add: filter_ge_Cons del: filter_ge.simps)
qed

lemma filter_ge_raises:
  assumes "x \<in> set xs" "passes k x = Inl e"
  shows "\<exists>m. filter_ge k xs = Inl (TypeError m)"
  using assms
proof (induction xs)
  case Nil
  then show ?case by simp
next
  case (Cons y ys)
  show ?case
  proof (cases "passes k y")
    case (Inl e')
    then show ?thesis
      using passes_error_is_TypeError[OF Inl] by (auto simp: filter_ge_Cons simp del: filter_ge.simps)
  next
    case (Inr b)
    then have "x \<in> set ys" using Cons.prems by auto
    then obtain m where "filter_ge k ys = Inl (TypeError m)" using Cons.IH Cons.prems by blast
    then show ?thesis using Inr by (simp add: filter_ge_Cons del: filter_ge.simps)
  qed
qed

lemma passes_independent_of_bound:
  "passes k x = Inr b \<Longrightarrow> \<exists>b'. passes k' x = Inr b'"
  by (auto simp: passes_def json_get_obj ge_py_def split: option.splits num.splits)

text \<open>The loop of the unified application is the same filter at 80, over the true outcomes.\<close>

lemma keep_ge80_filter_ge:
  "keep_ge80 out res =
     (case filter_ge 80 (truthy_outs out) of Inl e \<Rightarrow> Inl e | Inr r \<Rightarrow> Inr (res @ r))"
proof (induction out res rule: keep_ge80.induct)
  case (1 res)
  show ?case by (simp add: truthy_outs_def)
next
  case (2 out res)
  then show ?case by (simp add: truthy_outs_def)
next
  case (3 item out res)
  show ?case
  proof (cases "item = []")
    case True
    then show ?thesis using 3 by (simp add: truthy_outs_def)
  next
    case False
    have t: "truthy_outs (Some item # out) = item # truthy_outs out"
      using False by (simp add: truthy_outs_def)
    show ?thesis
    proof (cases "passes 80 item")
      case (Inl e)
      then show ?thesis
        using False by (auto simp: t filter_ge_Cons passes_def simp del: filter_ge.simps split: sum.splits)
    next
      case (Inr b)
      then obtain v where v: "json_get (JObj item) ''RelevanceScore'' (JInt 0) = Inr v" "ge_py v 80 = Inr b"
        by (auto simp: passes_def split: sum.splits)
      have "keep_ge80 (Some item # out) res = keep_ge80 out (if b then res @ [item] else res)"
        using False v by simp
      also have "\<dots> = (case filter_ge 80 (truthy_outs out) of Inl e \<Rightarrow> Inl e
                         | Inr r \<Rightarrow> Inr ((if b then res @ [item] else res) @ r))"
        using 3(2)[OF False v(1) v(2)] .
      finally show ?thesis
        using Inr by (auto simp: t filter_ge_Cons simp del: filter_ge.simps split: sum.splits)
    qed
  qed
qed


section \<open>Score mode: the pipeline over its candidates\<close>

lemma process_keyword_kombat_candidates:
  "process_keyword_kombat rt req =
     (case candidates rt req of
        Inl e \<Rightarrow> Inl e
      | Inr raw \<Rightarrow>
          (case filter_ge 80 raw of
             Inl e \<Rightarrow> Inl e
           | Inr res \<Rightarrow>
               if res = [] then
                 (if kk_test_mode req then Inr (map placeholder (scored_keywords req))
                  else filter_ge 50 raw)
               else Inr res))"
  by (simp add: process_keyword_kombat_def candidates_def scored_keywords_def Let_def
      split: sum.splits)

lemma frontand_process_keyword_kombat_candidates:
  "frontand_process_keyword_kombat rt kws url search test =
     (case frontand_candidates rt kws url search test of
        Inl e \<Rightarrow> Inl e
      | Inr raw \<Rightarrow> filter_ge 80 raw)"
  by (simp add: frontand_process_keyword_kombat_def frontand_candidates_def Let_def
      keep_ge80_filter_ge split: sum.splits)

lemma candidates_scored:
  assumes "candidates rt req = Inr raw"
  shows "length raw \<le> length (scored_keywords req)"
    and "x \<in> set raw \<Longrightarrow>
           (\<exists>c. relevance x = Some (JInt c) \<and> 10 \<le> c \<and> c \<le> 100)
         \<or> (\<exists>v. relevance x = Some v \<and> as_number v = None)"
proof -
  from assms obtain tpl where raw: "raw = truthy_outs (map (score rt tpl) (scored_keywords req))"
    by (auto simp: candidates_def split: sum.splits)
  show "length raw \<le> length (scored_keywords req)"
    using truthy_outs_length[of "map (score rt tpl) (scored_keywords req)"] raw by simp
  assume "x \<in> set raw"
  then obtain kw where "score rt tpl kw = Some x"
    using raw by (auto simp: truthy_outs_set)
  then show "(\<exists>c. relevance x = Some (JInt c) \<and> 10 \<le> c \<and> c \<le> 100)
         \<or> (\<exists>v. relevance x = Some v \<and> as_number v = None)"
    by (rule score_result)
qed

lemma frontand_candidates_scored:
  assumes "frontand_candidates rt kws url search test = Inr raw"
  shows "length raw \<le> length (if test then take 3 kws else kws)"
    and "x \<in> set raw \<Longrightarrow>
           (\<exists>c. relevance x = Some (JInt c) \<and> 10 \<le> c \<and> c \<le> 100)
         \<or> relevance x = None
         \<or> (\<exists>v. relevance x = Some v \<and> as_number v = None)"
proof -
  let ?kws = "if test then take 3 kws else kws"
  from assms obtain tpl where raw: "raw = truthy_outs (map (score_kw rt tpl) ?kws)"
    by (auto simp: frontand_candidates_def split: sum.splits)
  show "length raw \<le> length ?kws"
    using truthy_outs_length[of "map (score_kw rt tpl) ?kws"] raw by simp
  assume "x \<in> set raw"
  then obtain kw where "score_kw rt tpl kw = Some x"
    using raw by (auto simp: truthy_outs_set split: if_splits)
  then show "(\<exists>c. relevance x = Some (JInt c) \<and> 10 \<le> c \<and> c \<le> 100)
         \<or> relevance x = None
         \<or> (\<exists>v. relevance x = Some v \<and> as_number v = None)"
    by (rule score_kw_result)
qed

text \<open>An item that passes a threshold carries a clamped integer score at or above it.\<close>

lemma passed_item_score:
  assumes "(\<exists>c. relevance x = Some (JInt c) \<and> 10 \<le> c \<and> c \<le> 100)
         \<or> relevance x = None
         \<or> (\<exists>v. relevance x = Some v \<and> as_number v = None)"
    and "passes k x = Inr True" and "0 < k"
  shows "\<exists>c. relevance x = Some (JInt c) \<and> k \<le> c \<and> 10 \<le> c \<and> c \<le> 100"
  using assms passes_int[of x _ k] passes_missing[of x k] passes_TypeError[of x _ k]
  by (elim disjE exE conjE) auto

lemma filter_ge_scores:
  assumes "filter_ge k raw = Inr r" and "0 < k"
    and "\<And>x. x \<in> set raw \<Longrightarrow>
           (\<exists>c. relevance x = Some (JInt c) \<and> 10 \<le> c \<and> c \<le> 100)
         \<or> relevance x = None
         \<or> (\<exists>v. relevance x = Some v \<and> as_number v = None)"
    and "x \<in> set r"
  shows "\<exists>c. relevance x = Some (JInt c) \<and> k \<le> c \<and> 10 \<le> c \<and> c \<le> 100"
proof -
  from filter_ge_Inr[OF assms(1)] assms(4) have "x \<in> set raw" "passes k x = Inr True" by auto
  then show ?thesis using passed_item_score[OF assms(3) _ assms(2)] by blast
qed

lemma filter_ge_length: "filter_ge k raw = Inr r \<Longrightarrow> length r \<le> length raw"
  using filter_ge_Inr[of k raw r] by simp

lemma relevance_placeholder: "relevance (placeholder kw) = Some (JInt 90)"
  by (simp add: relevance_def placeholder_def dict_get_def)

lemma length_scored_keywords_test:
  "kk_test_mode req \<Longrightarrow> length (scored_keywords req) = min 3 (length (kk_keywords req))"
  by (simp add: scored_keywords_def min.commute)


section \<open>Score mode: the claims\<close>

definition model_90_20_20 :: "string \<Rightarrow> exn + string option" where
  "model_90_20_20 =
     kk_model [(''seo'', reply_score ''90''), (''shoes'', reply_score ''20''),
               (''cars'', reply_score ''20'')]"

definition model_60 :: "string \<Rightarrow> exn + string option" where
  "model_60 = kk_model [(''seo'', reply_score ''60'')]"

text \<open>
  C1 as stated fails: in test mode, four keywords of which the first three are scored
  90, 20 and 20 give one result, not \<open>min(3, 4) = 3\<close>.
\<close>

theorem test_mode_length_counterexample:
  "kk_test_mode (kk_request [''seo'', ''shoes'', ''cars'', ''boats''] True)
   \<and> process_keyword_kombat (stub_runtime model_90_20_20)
        (kk_request [''seo'', ''shoes'', ''cars'', ''boats''] True) =
      Inr [[(''RelevanceScore'', JInt 90)]]
   \<and> length [[(''RelevanceScore'', JInt 90)]] \<noteq>
      min 3 (length (kk_keywords (kk_request [''seo'', ''shoes'', ''cars'', ''boats''] True)))"
  by code_simp

text \<open>
  C1, amended. In test mode a returned result has at most \<open>min(3, len(keywords))\<close>
  items, it is not empty when there are keywords, it has exactly
  \<open>min(3, len(keywords))\<close> items when no candidate reaches 80 (the placeholders, one
  for each of the first three keywords, each with score 90), and every
  \<open>relevance_score\<close> in it is an integer in [10,100]. In the unified application
  a returned result has at most \<open>min(3, len(keywords))\<close> items, with scores in [80,100].
\<close>

theorem test_mode_results:
  "(kk_test_mode req \<and> process_keyword_kombat rt req = Inr rs \<longrightarrow>
      length rs \<le> min 3 (length (kk_keywords req))
      \<and> (\<forall>x \<in> set rs. \<exists>c. relevance x = Some (JInt c) \<and> 10 \<le> c \<and> c \<le> 100)
      \<and> (kk_keywords req \<noteq> [] \<longrightarrow> rs \<noteq> [])
      \<and> (\<forall>raw. candidates rt req = Inr raw \<and> filter_ge 80 raw = Inr [] \<longrightarrow>
            length rs = min 3 (length (kk_keywords req))
            \<and> rs = map placeholder (take 3 (kk_keywords req))
            \<and> (\<forall>x \<in> set rs. relevance x = Some (JInt 90))))
   \<and> (frontand_process_keyword_kombat rt kws url search True = Inr rs' \<longrightarrow>
      length rs' \<le> min 3 (length kws)
      \<and> (\<forall>x \<in> set rs'. \<exists>c. relevance x = Some (JInt c) \<and> 80 \<le> c \<and> c \<le> 100))"
proof (intro conjI impI)
  assume a: "kk_test_mode req \<and> process_keyword_kombat rt req = Inr rs"
  then have test: "kk_test_mode req" and rs: "process_keyword_kombat rt req = Inr rs" by simp_all
  from rs obtain raw res where raw: "candidates rt req = Inr raw"
    and res: "filter_ge 80 raw = Inr res"
    and out: "rs = (if res = [] then map placeholder (scored_keywords req) else res)"
    using test
    by (auto simp: process_keyword_kombat_candidates split: sum.splits if_splits)
  have len: "length (scored_keywords req) = min 3 (length (kk_keywords req))"
    using test by (rule length_scored_keywords_test)
  have sc: "(\<exists>c. relevance x = Some (JInt c) \<and> 10 \<le> c \<and> c \<le> 100)
         \<or> relevance x = None
         \<or> (\<exists>v. relevance x = Some v \<and> as_number v = None)" if "x \<in> set raw" for x
    using candidates_scored(2)[OF raw that] by blast
  show "length rs \<le> min 3 (length (kk_keywords req))"
    using out len filter_ge_length[OF res] candidates_scored(1)[OF raw] by (simp split: if_splits)
  show "\<forall>x \<in> set rs. \<exists>c. relevance x = Some (JInt c) \<and> 10 \<le> c \<and> c \<le> 100"
  proof
    fix x assume x: "x \<in> set rs"
    show "\<exists>c. relevance x = Some (JInt c) \<and> 10 \<le> c \<and> c \<le> 100"
    proof (cases "res = []")
      case True
      then show ?thesis using x out by (auto simp: relevance_placeholder)
    next
      case False
      then have "x \<in> set res" using x out by simp
      from filter_ge_scores[OF res _ sc this] show ?thesis by auto
    qed
  qed
  show "rs \<noteq> []" if "kk_keywords req \<noteq> []"
    using that out test by (auto simp: scored_keywords_def)
  show "\<forall>raw. candidates rt req = Inr raw \<and> filter_ge 80 raw = Inr [] \<longrightarrow>
            length rs = min 3 (length (kk_keywords req))
            \<and> rs = map placeholder (take 3 (kk_keywords req))
            \<and> (\<forall>x \<in> set rs. relevance x = Some (JInt 90))"
  proof (intro allI impI)
    fix raw'
    assume "candidates rt req = Inr raw' \<and> filter_ge 80 raw' = Inr []"
    then have "res = []" using raw res by simp
    then have r: "rs = map placeholder (take 3 (kk_keywords req))"
      using out test by (simp add: scored_keywords_def)
    then have "length rs = min 3 (length (kk_keywords req))" by (simp add: min.commute)
    moreover have "\<forall>x \<in> set rs. relevance x = Some (JInt 90)"
      using r by (auto simp: relevance_placeholder)
    ultimately show "length rs = min 3 (length (kk_keywords req))
            \<and> rs = map placeholder (take 3 (kk_keywords req))
            \<and> (\<forall>x \<in> set rs. relevance x = Some (JInt 90))"
      using r by simp
  qed
next
  assume rs': "frontand_process_keyword_kombat rt kws url search True = Inr rs'"
  then obtain raw where raw: "frontand_candidates rt kws url search True = Inr raw"
    and res: "filter_ge 80 raw = Inr rs'"
    by (auto simp: frontand_process_keyword_kombat_candidates split: sum.splits)
  show "length rs' \<le> min 3 (length kws)"
    using filter_ge_length[OF res] frontand_candidates_scored(1)[OF raw] by simp
  show "\<forall>x \<in> set rs'. \<exists>c. relevance x = Some (JInt c) \<and> 80 \<le> c \<and> c \<le> 100"
  proof
    fix x assume "x \<in> set rs'"
    from filter_ge_scores[OF res _ frontand_candidates_scored(2)[OF raw] this]
    show "\<exists>c. relevance x = Some (JInt c) \<and> 80 \<le> c \<and> c \<le> 100" by auto
  qed
qed

theorem test_mode_results_witness:
  "kk_test_mode (kk_request [''seo'', ''shoes'', ''cars'', ''boats''] True)
   \<and> process_keyword_kombat (stub_runtime model_90_20_20)
        (kk_request [''seo'', ''shoes'', ''cars'', ''boats''] True) =
      Inr [[(''RelevanceScore'', JInt 90)]]
   \<and> length [[(''RelevanceScore'', JInt 90)] :: pydict] \<le>
      min 3 (length (kk_keywords (kk_request [''seo'', ''shoes'', ''cars'', ''boats''] True)))
   \<and> frontand_process_keyword_kombat (stub_runtime model_90_20_20)
        [''seo'', ''shoes'', ''cars'', ''boats''] ''https://acme.io/about'' False True =
      Inr [[(''RelevanceScore'', JInt 90)]]
   \<and> process_keyword_kombat (stub_runtime model_90_20_20)
        (kk_request [''shoes'', ''cars''] True) =
      Inr [placeholder ''shoes'', placeholder ''cars'']
   \<and> relevance (placeholder ''shoes'') = Some (JInt 90)"
proof -
  let ?rt = "stub_runtime model_90_20_20"
  let ?req = "kk_request [''seo'', ''shoes'', ''cars'', ''boats''] True"
  have t: "kk_test_mode ?req" by (simp add: kk_request_def)
  have r: "process_keyword_kombat ?rt ?req = Inr [[(''RelevanceScore'', JInt 90)]]"
    by code_simp
  have f: "frontand_process_keyword_kombat ?rt
             [''seo'', ''shoes'', ''cars'', ''boats''] ''https://acme.io/about'' False True =
           Inr [[(''RelevanceScore'', JInt 90)]]"
    by code_simp
  have p: "process_keyword_kombat ?rt (kk_request [''shoes'', ''cars''] True) =
           Inr [placeholder ''shoes'', placeholder ''cars'']"
    by code_simp
  have q: "relevance (placeholder ''shoes'') = Some (JInt 90)" by (rule relevance_placeholder)
  from test_mode_results[where req = ?req and rt = ?rt and rs = "[[(''RelevanceScore'', JInt 90)]]"
      and kws = "[''seo'', ''shoes'', ''cars'', ''boats'']" and url = "''https://acme.io/about''"
      and search = False and rs' = "[[(''RelevanceScore'', JInt 90)]]"]
  have "length [[(''RelevanceScore'', JInt 90)] :: pydict] \<le> min 3 (length (kk_keywords ?req))"
    using t r by blast
  then show ?thesis using t r f p q by simp
qed

text \<open>
  C2 as stated fails in the unified application, which has no relaxed threshold: one
  keyword scored 60 in production gives no result, although the filter at 80 over the
  candidates is empty and the filter at 50 over the same candidates keeps the item.
\<close>

theorem no_relaxation_in_unified_app:
  "frontand_process_keyword_kombat (stub_runtime model_60)
     [''seo''] ''https://acme.io/about'' False False = Inr []
   \<and> frontand_candidates (stub_runtime model_60)
     [''seo''] ''https://acme.io/about'' False False = Inr [[(''RelevanceScore'', JInt 60)]]
   \<and> filter_ge 80 [[(''RelevanceScore'', JInt 60)]] = Inr []
   \<and> filter_ge 50 [[(''RelevanceScore'', JInt 60)]] = Inr [[(''RelevanceScore'', JInt 60)]]"
  by code_simp

text \<open>
  C2, amended. In production the direct application returns the filter at 80 over the
  candidates when that filter keeps something, and every score is then an integer in
  [80,100]; exactly when that filter is empty it returns the filter at 50 over the same
  candidates, and every score is then an integer in [50,80). The two cases exclude
  each other. The unified application returns the filter at 80 in every case, empty or
  not.
\<close>

theorem production_thresholds:
  "(\<not> kk_test_mode req \<and> process_keyword_kombat rt req = Inr rs \<longrightarrow>
      (\<exists>raw strict relaxed.
          candidates rt req = Inr raw \<and> filter_ge 80 raw = Inr strict
          \<and> filter_ge 50 raw = Inr relaxed
          \<and> rs = (if strict \<noteq> [] then strict else relaxed)
          \<and> (strict \<noteq> [] \<longrightarrow>
               (\<forall>x \<in> set rs. \<exists>c. relevance x = Some (JInt c) \<and> 80 \<le> c \<and> c \<le> 100))
          \<and> (strict = [] \<longrightarrow>
               (\<forall>x \<in> set rs. \<exists>c. relevance x = Some (JInt c) \<and> 50 \<le> c \<and> c < 80))))
   \<and> (frontand_process_keyword_kombat rt kws url search False = Inr rs' \<longrightarrow>
      (\<exists>raw. frontand_candidates rt kws url search False = Inr raw \<and> filter_ge 80 raw = Inr rs')
      \<and> (\<forall>x \<in> set rs'. \<exists>c. relevance x = Some (JInt c) \<and> 80 \<le> c \<and> c \<le> 100))"
proof (intro conjI impI)
  assume a: "\<not> kk_test_mode req \<and> process_keyword_kombat rt req = Inr rs"
  then have prod: "\<not> kk_test_mode req" and rs: "process_keyword_kombat rt req = Inr rs"
    by simp_all
  from rs obtain raw strict where raw: "candidates rt req = Inr raw"
    and strict: "filter_ge 80 raw = Inr strict"
    and out: "if strict = [] then filter_ge 50 raw = Inr rs else rs = strict"
    using prod
    by (auto simp: process_keyword_kombat_candidates split: sum.splits if_splits)
  have "\<forall>x \<in> set raw. \<exists>b. passes 50 x = Inr b"
    using filter_ge_Inr[OF strict] passes_independent_of_bound[of 80 _ _ 50] by blast
  then obtain relaxed where relaxed: "filter_ge 50 raw = Inr relaxed"
    using filter_ge_total by blast
  have sc: "(\<exists>c. relevance x = Some (JInt c) \<and> 10 \<le> c \<and> c \<le> 100)
         \<or> relevance x = None
         \<or> (\<exists>v. relevance x = Some v \<and> as_number v = None)" if "x \<in> set raw" for x
    using candidates_scored(2)[OF raw that] by blast
  have eq: "rs = (if strict \<noteq> [] then strict else relaxed)"
    using out relaxed by (auto split: if_splits)
  have hi: "\<forall>x \<in> set rs. \<exists>c. relevance x = Some (JInt c) \<and> 80 \<le> c \<and> c \<le> 100"
    if "strict \<noteq> []"
  proof
    fix x assume "x \<in> set rs"
    then have "x \<in> set strict" using eq that by simp
    from filter_ge_scores[OF strict _ sc this]
    show "\<exists>c. relevance x = Some (JInt c) \<and> 80 \<le> c \<and> c \<le> 100" by auto
  qed
  have lo: "\<forall>x \<in> set rs. \<exists>c. relevance x = Some (JInt c) \<and> 50 \<le> c \<and> c < 80"
    if "strict = []"
  proof
    fix x assume "x \<in> set rs"
    then have x: "x \<in> set relaxed" using eq that by simp
    from filter_ge_scores[OF relaxed _ sc x]
    obtain c where c: "relevance x = Some (JInt c)" "50 \<le> c" by auto
    have "x \<in> set raw" using filter_ge_Inr[OF relaxed] x by auto
    moreover have "filter (\<lambda>x. passes 80 x = Inr True) raw = []"
      using filter_ge_Inr[OF strict] that by simp
    ultimately have "passes 80 x \<noteq> Inr True" by (auto simp: filter_empty_conv)
    then have "c < 80" using passes_int[OF c(1), of 80] by auto
    then show "\<exists>c. relevance x = Some (JInt c) \<and> 50 \<le> c \<and> c < 80" using c by auto
  qed
  show "\<exists>raw strict relaxed.
          candidates rt req = Inr raw \<and> filter_ge 80 raw = Inr strict
          \<and> filter_ge 50 raw = Inr relaxed
          \<and> rs = (if strict \<noteq> [] then strict else relaxed)
          \<and> (strict \<noteq> [] \<longrightarrow>
               (\<forall>x \<in> set rs. \<exists>c. relevance x = Some (JInt c) \<and> 80 \<le> c \<and> c \<le> 100))
          \<and> (strict = [] \<longrightarrow>
               (\<forall>x \<in> set rs. \<exists>c. relevance x = Some (JInt c) \<and> 50 \<le> c \<and> c < 80))"
    using raw strict relaxed eq hi lo by (intro exI conjI impI) 
next
  assume rs': "frontand_process_keyword_kombat rt kws url search False = Inr rs'"
  then obtain raw where raw: "frontand_candidates rt kws url search False = Inr raw"
    and res: "filter_ge 80 raw = Inr rs'"
    by (auto simp: frontand_process_keyword_kombat_candidates split: sum.splits)
  show "\<exists>raw. frontand_candidates rt kws url search False = Inr raw \<and> filter_ge 80 raw = Inr rs'"
    using raw res by blast
  show "\<forall>x \<in> set rs'. \<exists>c. relevance x = Some (JInt c) \<and> 80 \<le> c \<and> c \<le> 100"
  proof
    fix x assume "x \<in> set rs'"
    from filter_ge_scores[OF res _ frontand_candidates_scored(2)[OF raw] this]
    show "\<exists>c. relevance x = Some (JInt c) \<and> 80 \<le> c \<and> c \<le> 100" by auto
  qed
qed

theorem production_thresholds_witness:
  "\<not> kk_test_mode (kk_request [''seo''] False)
   \<and> process_keyword_kombat (stub_runtime model_60) (kk_request [''seo''] False) =
      Inr [[(''RelevanceScore'', JInt 60)]]
   \<and> (\<exists>raw. candidates (stub_runtime model_60) (kk_request [''seo''] False) = Inr raw
         \<and> filter_ge 80 raw = Inr [] \<and> filter_ge 50 raw = Inr [[(''RelevanceScore'', JInt 60)]])
   \<and> process_keyword_kombat (stub_runtime model_90_20_20)
        (kk_request [''seo'', ''shoes'', ''cars'', ''boats''] False) =
      Inr [[(''RelevanceScore'', JInt 90)]]"
proof -
  let ?rt = "stub_runtime model_60"
  let ?req = "kk_request [''seo''] False"
  have t: "\<not> kk_test_mode ?req" by (simp add: kk_request_def)
  have r: "process_keyword_kombat ?rt ?req = Inr [[(''RelevanceScore'', JInt 60)]]"
    by code_simp
  have c: "candidates ?rt ?req = Inr [[(''RelevanceScore'', JInt 60)]]" by code_simp
  have f: "filter_ge 80 [[(''RelevanceScore'', JInt 60)]] = Inr []"
          "filter_ge 50 [[(''RelevanceScore'', JInt 60)]] = Inr [[(''RelevanceScore'', JInt 60)]]"
    by code_simp+
  have h: "process_keyword_kombat (stub_runtime model_90_20_20)
        (kk_request [''seo'', ''shoes'', ''cars'', ''boats''] False) =
      Inr [[(''RelevanceScore'', JInt 90)]]"
    by code_simp
  from production_thresholds[where req = ?req and rt = ?rt and rs = "[[(''RelevanceScore'', JInt 60)]]"
      and kws = "[''seo'']" and url = "''https://acme.io/about''" and search = False and rs' = "[]"]
  obtain raw strict relaxed where
    "candidates ?rt ?req = Inr raw" "filter_ge 80 raw = Inr strict" "filter_ge 50 raw = Inr relaxed"
    using t r by blast
  then have "\<exists>raw. candidates ?rt ?req = Inr raw
         \<and> filter_ge 80 raw = Inr [] \<and> filter_ge 50 raw = Inr [[(''RelevanceScore'', JInt 60)]]"
    using c f by auto
  then show ?thesis using t r h by simp
qed


definition model_high :: "string \<Rightarrow> exn + string option" where
  "model_high = kk_model [(''seo'', reply_score (quoted ''high''))]"

definition body_kk :: pydict where
  "body_kk =
     [(''mode'', JStr ''keyword-kombat''), (''keywords'', JArr [JStr ''seo'']),
      (''company_url'', JStr ''https://acme.io/about'')]"

text \<open>The template the direct application builds from its default company object.\<close>

definition stub_tpl :: string where
  "stub_tpl =
     (case score_template (stub_runtime model_high)
             (JObj [(''company_name'', JStr ''https://acme.io/about'')]) of
        Inl e \<Rightarrow> []
      | Inr t \<Rightarrow> t)"

lemma split_py_nonempty: "split_py sep s \<noteq> []"
  by (induction sep s rule: split_py.induct) (auto split: list.splits)

lemma score_template_obj: "\<exists>tpl. score_template rt (JObj d) = Inr tpl"
  by (simp add: score_template_def json_get_def)

text \<open>
  C6 as stated fails in the unified application: its default object is not
  \<open>{company_name: target_url}\<close>; the name is the host of the URL and three more fields
  are set.
\<close>

theorem unified_default_company_differs:
  "generate_content (stub_runtime model_60) (frontand_research_prompt ''https://acme.io/about'' False) =
     Inr (Some ''I could not find the company.'')
   \<and> json_loads (stub_runtime model_60) (strip_fence (strip ''I could not find the company.'')) =
     Inl (JSONDecodeError ''Expecting value'')
   \<and> frontand_research_company (stub_runtime model_60) ''https://acme.io/about'' False =
     Inr (JObj [(''company_name'', JStr ''acme.io''),
                (''company_description'', JStr ''Unternehmen unter https://acme.io/about''),
                (''industry'', JStr []), (''target_market'', JStr [])])
   \<and> JObj [(''company_name'', JStr ''acme.io''),
           (''company_description'', JStr ''Unternehmen unter https://acme.io/about''),
           (''industry'', JStr []), (''target_market'', JStr [])] \<noteq>
     JObj [(''company_name'', JStr ''https://acme.io/about'')]"
  by code_simp

text \<open>
  C6, amended. When the reply of the company research call cannot be parsed as JSON,
  the research stage does not abort and the keywords are scored: the direct application
  goes on with \<open>{company_name: target_url}\<close>, the unified application with the host of
  the URL as \<open>company_name\<close>, \<open>Unternehmen unter <url>\<close> as \<open>company_description\<close> and
  empty \<open>industry\<close> and \<open>target_market\<close>.
\<close>

theorem research_fallback:
  "(generate_content rt (research_prompt req) = Inr r
      \<and> json_loads rt (strip_fence (strip (text_or_default r))) = Inl e \<longrightarrow>
      research_company rt req = Inr (JObj [(''company_name'', JStr (company_url req))])
      \<and> (\<exists>raw. candidates rt req = Inr raw))
   \<and> (generate_content rt (frontand_research_prompt url search) = Inr r'
      \<and> json_loads rt (strip_fence (strip (text_or_default r'))) = Inl e' \<longrightarrow>
      (\<exists>host rest.
          split_py ''/'' (replace_py ''http://'' [] (replace_py ''https://'' [] url)) = host # rest
          \<and> frontand_research_company rt url search =
              Inr (JObj [(''company_name'', JStr host),
                         (''company_description'', JStr (''Unternehmen unter '' @ url)),
                         (''industry'', JStr []), (''target_market'', JStr [])]))
      \<and> (\<exists>raw. frontand_candidates rt kws url search test = Inr raw))"
proof (intro conjI impI)
  assume a: "generate_content rt (research_prompt req) = Inr r
      \<and> json_loads rt (strip_fence (strip (text_or_default r))) = Inl e"
  then show c: "research_company rt req = Inr (JObj [(''company_name'', JStr (company_url req))])"
    by (simp add: research_company_def)
  obtain tpl where "score_template rt (JObj [(''company_name'', JStr (company_url req))]) = Inr tpl"
    using score_template_obj by blast
  then show "\<exists>raw. candidates rt req = Inr raw"
    using c by (simp add: candidates_def)
next
  assume a: "generate_content rt (frontand_research_prompt url search) = Inr r'
      \<and> json_loads rt (strip_fence (strip (text_or_default r'))) = Inl e'"
  let ?parts = "split_py ''/'' (replace_py ''http://'' [] (replace_py ''https://'' [] url))"
  obtain host rest where parts: "?parts = host # rest"
    using split_py_nonempty[of "''/''"] by (cases ?parts) auto
  let ?d = "[(''company_name'', JStr host),
             (''company_description'', JStr (''Unternehmen unter '' @ url)),
             (''industry'', JStr []), (''target_market'', JStr [])]"
  have c: "frontand_research_company rt url search = Inr (JObj ?d)"
    using a parts by (simp add: frontand_research_company_def frontand_default_company_def index_py_def)
  show "\<exists>host rest. ?parts = host # rest
          \<and> frontand_research_company rt url search =
              Inr (JObj [(''company_name'', JStr host),
                         (''company_description'', JStr (''Unternehmen unter '' @ url)),
                         (''industry'', JStr []), (''target_market'', JStr [])])"
    using parts c by blast
  obtain tpl where "score_template rt (JObj ?d) = Inr tpl"
    using score_template_obj by blast
  then show "\<exists>raw. frontand_candidates rt kws url search test = Inr raw"
    using c by (simp add: frontand_candidates_def)
qed

theorem research_fallback_witness:
  "generate_content (stub_runtime model_60) (research_prompt (kk_request [''seo''] False)) =
     Inr (Some ''I could not find the company.'')
   \<and> json_loads (stub_runtime model_60)
       (strip_fence (strip (text_or_default (Some ''I could not find the company.'')))) =
     Inl (JSONDecodeError ''Expecting value'')
   \<and> research_company (stub_runtime model_60) (kk_request [''seo''] False) =
     Inr (JObj [(''company_name'', JStr ''https://acme.io/about'')])
   \<and> process_keyword_kombat (stub_runtime model_60) (kk_request [''seo''] False) =
     Inr [[(''RelevanceScore'', JInt 60)]]"
proof -
  let ?rt = "stub_runtime model_60"
  let ?req = "kk_request [''seo''] False"
  have g: "generate_content ?rt (research_prompt ?req) = Inr (Some ''I could not find the company.'')"
    by code_simp
  have l: "json_loads ?rt (strip_fence (strip (text_or_default (Some ''I could not find the company.'')))) =
           Inl (JSONDecodeError ''Expecting value'')"
    by code_simp
  have u: "company_url ?req = ''https://acme.io/about''" by (simp add: kk_request_def)
  have p: "process_keyword_kombat ?rt ?req = Inr [[(''RelevanceScore'', JInt 60)]]" by code_simp
  from research_fallback[where rt = ?rt and req = ?req and r = "Some ''I could not find the company.''"
      and e = "JSONDecodeError ''Expecting value''" and url = "''https://acme.io/about''"
      and search = False and r' = "Some ''I could not find the company.''"
      and e' = "JSONDecodeError ''Expecting value''"]
  have "research_company ?rt ?req = Inr (JObj [(''company_name'', JStr (company_url ?req))])"
    using g l by blast
  then show ?thesis using g l u p by simp
qed

lemma score_keeps_non_numeric:
  assumes "generate_content rt (replace_py ''{{ keyword }}'' kw tpl) = Inr r"
    and "json_loads rt (strip_fence (strip (text_or_default r))) = Inr (JObj obj)"
    and "dict_get obj ''RelevanceScore'' = Some v" and "as_number v = None"
  shows "score rt tpl kw = Some obj" and "score_kw rt tpl kw = Some obj"
  using assms by (simp_all add: score_def score_kw_def json_get_obj)

lemma candidate_raises:
  assumes "Some obj \<in> set outs" and "relevance obj = Some v" and "as_number v = None"
  shows "\<exists>m. filter_ge k (truthy_outs outs) = Inl (TypeError m)"
proof -
  have "obj \<noteq> []" using assms(2) by (auto simp: relevance_def dict_get_def)
  then have "obj \<in> set (truthy_outs outs)" using assms(1) by (simp add: truthy_outs_set)
  moreover obtain m where "passes k obj = Inl (TypeError m)"
    using passes_TypeError[OF assms(2,3)] by blast
  ultimately show ?thesis using filter_ge_raises by blast
qed

text \<open>
  C10. When a scored keyword's reply parses to an object whose \<open>RelevanceScore\<close> is
  not a number, the item is kept as it is, the comparison with 80 raises TypeError
  outside the handler of the item, and the pipeline fails as a whole instead of
  dropping the item: \<open>process_keyword_kombat\<close> raises and the endpoint of the direct
  application answers with its \<open>HTTPException\<close> 500; \<open>_process_keyword_kombat\<close> of
  the unified application raises the same way.
\<close>

theorem non_numeric_score_fails_request:
  "(research_company rt req = Inr company \<and> score_template rt company = Inr tpl
      \<and> kw \<in> set (scored_keywords req)
      \<and> generate_content rt (replace_py ''{{ keyword }}'' kw tpl) = Inr r
      \<and> json_loads rt (strip_fence (strip (text_or_default r))) = Inr (JObj obj)
      \<and> dict_get obj ''RelevanceScore'' = Some v \<and> as_number v = None \<longrightarrow>
      score rt tpl kw = Some obj
      \<and> (\<exists>m. process_keyword_kombat rt req = Inl (TypeError m)
            \<and> (request_mode body = Inr ''keyword-kombat''
                 \<and> new_KeywordKombatRequest rt body = Inr req \<longrightarrow>
                 process_unified rt body = HTTPException 500 (''Processing failed: '' @ m))))
   \<and> (frontand_research_company rt (company_url req) (kk_enable_google_search req) = Inr company
      \<and> score_template rt company = Inr tpl
      \<and> kw \<in> set (scored_keywords req)
      \<and> generate_content rt (replace_py ''{{ keyword }}'' kw tpl) = Inr r
      \<and> json_loads rt (strip_fence (strip (text_or_default r))) = Inr (JObj obj)
      \<and> dict_get obj ''RelevanceScore'' = Some v \<and> as_number v = None \<longrightarrow>
      score_kw rt tpl kw = Some obj
      \<and> (\<exists>m. frontand_process_keyword_kombat rt (kk_keywords req) (company_url req)
                 (kk_enable_google_search req) (kk_test_mode req) = Inl (TypeError m)))"
proof (intro conjI impI)
  assume a: "research_company rt req = Inr company \<and> score_template rt company = Inr tpl
      \<and> kw \<in> set (scored_keywords req)
      \<and> generate_content rt (replace_py ''{{ keyword }}'' kw tpl) = Inr r
      \<and> json_loads rt (strip_fence (strip (text_or_default r))) = Inr (JObj obj)
      \<and> dict_get obj ''RelevanceScore'' = Some v \<and> as_number v = None"
  then have s: "score rt tpl kw = Some obj" using score_keeps_non_numeric(1) by blast
  then show "score rt tpl kw = Some obj" .
  have c: "candidates rt req = Inr (truthy_outs (map (score rt tpl) (scored_keywords req)))"
    using a by (simp add: candidates_def)
  have "Some obj \<in> set (map (score rt tpl) (scored_keywords req))"
    using a s by force
  moreover have "relevance obj = Some v" using a by (simp add: relevance_def)
  ultimately obtain m where
    m: "filter_ge 80 (truthy_outs (map (score rt tpl) (scored_keywords req))) = Inl (TypeError m)"
    using candidate_raises a by blast
  have p: "process_keyword_kombat rt req = Inl (TypeError m)"
    using c m by (simp add: process_keyword_kombat_candidates)
  have "process_unified rt body = HTTPException 500 (''Processing failed: '' @ m)"
    if "request_mode body = Inr ''keyword-kombat'' \<and> new_KeywordKombatRequest rt body = Inr req"
    using that p by (simp add: process_unified_def process_unified_try_def)
  then show "\<exists>m. process_keyword_kombat rt req = Inl (TypeError m)
            \<and> (request_mode body = Inr ''keyword-kombat''
                 \<and> new_KeywordKombatRequest rt body = Inr req \<longrightarrow>
                 process_unified rt body = HTTPException 500 (''Processing failed: '' @ m))"
    using p by blast
next
  assume a: "frontand_research_company rt (company_url req) (kk_enable_google_search req) = Inr company
      \<and> score_template rt company = Inr tpl
      \<and> kw \<in> set (scored_keywords req)
      \<and> generate_content rt (replace_py ''{{ keyword }}'' kw tpl) = Inr r
      \<and> json_loads rt (strip_fence (strip (text_or_default r))) = Inr (JObj obj)
      \<and> dict_get obj ''RelevanceScore'' = Some v \<and> as_number v = None"
  then have s: "score_kw rt tpl kw = Some obj" using score_keeps_non_numeric(2) by blast
  then show "score_kw rt tpl kw = Some obj" .
  let ?kws = "if kk_test_mode req then take 3 (kk_keywords req) else kk_keywords req"
  have k: "scored_keywords req = ?kws" by (simp add: scored_keywords_def)
  have c: "frontand_candidates rt (kk_keywords req) (company_url req) (kk_enable_google_search req)
             (kk_test_mode req) = Inr (truthy_outs (map (score_kw rt tpl) ?kws))"
    using a by (simp add: frontand_candidates_def)
  have "Some obj \<in> set (map (score_kw rt tpl) ?kws)"
    using a s k by force
  moreover have "relevance obj = Some v" using a by (simp add: relevance_def)
  ultimately obtain m where
    m: "filter_ge 80 (truthy_outs (map (score_kw rt tpl) ?kws)) = Inl (TypeError m)"
    using candidate_raises a by blast
  have p: "frontand_process_keyword_kombat rt (kk_keywords req) (company_url req)
             (kk_enable_google_search req) (kk_test_mode req) = Inl (TypeError m)"
    using c m by (simp add: frontand_process_keyword_kombat_candidates)
  show "\<exists>m. frontand_process_keyword_kombat rt (kk_keywords req) (company_url req)
                 (kk_enable_google_search req) (kk_test_mode req) = Inl (TypeError m)"
    using p by blast
qed

theorem non_numeric_score_fails_request_witness:
  "research_company (stub_runtime model_high) (kk_request [''seo''] False) =
     Inr (JObj [(''company_name'', JStr ''https://acme.io/about'')])
   \<and> score_template (stub_runtime model_high)
       (JObj [(''company_name'', JStr ''https://acme.io/about'')]) = Inr stub_tpl
   \<and> ''seo'' \<in> set (scored_keywords (kk_request [''seo''] False))
   \<and> generate_content (stub_runtime model_high) (replace_py ''{{ keyword }}'' ''seo'' stub_tpl) =
       Inr (Some (reply_score (quoted ''high'')))
   \<and> json_loads (stub_runtime model_high)
       (strip_fence (strip (text_or_default (Some (reply_score (quoted ''high'')))))) =
       Inr (JObj [(''RelevanceScore'', JStr ''high'')])
   \<and> as_number (JStr ''high'') = None
   \<and> score (stub_runtime model_high) stub_tpl ''seo'' = Some [(''RelevanceScore'', JStr ''high'')]
   \<and> (\<exists>m. process_keyword_kombat (stub_runtime model_high) (kk_request [''seo''] False) =
             Inl (TypeError m)
          \<and> process_unified (stub_runtime model_high) body_kk =
             HTTPException 500 (''Processing failed: '' @ m))"
proof -
  let ?rt = "stub_runtime model_high"
  let ?req = "kk_request [''seo''] False"
  let ?company = "JObj [(''company_name'', JStr ''https://acme.io/about'')]"
  let ?obj = "[(''RelevanceScore'', JStr ''high'')]"
  have h1: "research_company ?rt ?req = Inr ?company" by code_simp
  have h2: "score_template ?rt ?company = Inr stub_tpl" by code_simp
  have h3: "''seo'' \<in> set (scored_keywords ?req)" by code_simp
  have h4: "generate_content ?rt (replace_py ''{{ keyword }}'' ''seo'' stub_tpl) =
            Inr (Some (reply_score (quoted ''high'')))"
    by code_simp
  have h5: "json_loads ?rt (strip_fence (strip (text_or_default (Some (reply_score (quoted ''high'')))))) =
            Inr (JObj ?obj)"
    by code_simp
  have h6: "dict_get ?obj ''RelevanceScore'' = Some (JStr ''high'')" by (simp add: dict_get_def)
  have h7: "as_number (JStr ''high'') = None" by simp
  have b1: "request_mode body_kk = Inr ''keyword-kombat''" by code_simp
  have b2: "new_KeywordKombatRequest ?rt body_kk = Inr ?req" by code_simp
  from non_numeric_score_fails_request[where rt = ?rt and req = ?req and company = ?company
      and tpl = stub_tpl and kw = "''seo''" and r = "Some (reply_score (quoted ''high''))"
      and obj = ?obj and v = "JStr ''high''" and body = body_kk]
  have "score ?rt stub_tpl ''seo'' = Some ?obj
      \<and> (\<exists>m. process_keyword_kombat ?rt ?req = Inl (TypeError m)
            \<and> process_unified ?rt body_kk = HTTPException 500 (''Processing failed: '' @ m))"
    using h1 h2 h3 h4 h5 h6 h7 b1 b2 by blast
  then show ?thesis using h1 h2 h3 h4 h5 h7 by simp
qed


section \<open>Reading a fenced reply\<close>

lemma ws_head_backtick: "ws_head (CHR 0x60 # t) = None"
  by (simp add: ws_head_def py_whitespace_def)

lemma ws_tail_backtick: "ws_tail (t @ [CHR 0x60]) = None"
  by (simp add: ws_tail_def py_whitespace_def suffix_to_prefix)

lemma strip_between_backticks: "strip (CHR 0x60 # t @ [CHR 0x60]) = CHR 0x60 # t @ [CHR 0x60]"
proof -
  have l: "lstrip (CHR 0x60 # t @ [CHR 0x60]) = CHR 0x60 # t @ [CHR 0x60]"
    by (subst lstrip.simps) (simp add: ws_head_backtick)
  have "ws_tail ((CHR 0x60 # t) @ [CHR 0x60]) = None" by (rule ws_tail_backtick)
  then have r: "rstrip (CHR 0x60 # t @ [CHR 0x60]) = CHR 0x60 # t @ [CHR 0x60]"
    by (subst rstrip.simps) simp
  show ?thesis by (simp add: strip_def l r)
qed

lemma prefix_before_foreign_char:
  assumes "c \<notin> set sep" and "prefix sep (u @ c # t)"
  shows "prefix sep u"
proof -
  from assms(2) consider "prefix sep u" | us where "sep = u @ us" "prefix us (c # t)"
    by (auto simp: prefix_append)
  then show ?thesis
  proof cases
    case 1
    then show ?thesis .
  next
    case 2
    then show ?thesis using assms(1) by (cases us) auto
  qed
qed

lemma contains_py_prefix: "contains_py (p @ q) s \<Longrightarrow> contains_py p s"
  by (induction s) (auto simp: prefix_def)

text \<open>Splitting passes over a stretch without the separator that ends in a foreign character.\<close>

lemma split_py_skip:
  assumes "sep \<noteq> []" and "c \<notin> set sep" and "\<not> contains_py sep s"
  shows "split_py sep (s @ c # y) =
           (case split_py sep y of [] \<Rightarrow> [s @ [c]] | p # ps \<Rightarrow> (s @ c # p) # ps)"
  using assms(3)
proof (induction s)
  case Nil
  have "\<not> prefix sep (c # y)"
    using assms(1,2) by (cases sep) auto
  then show ?case by (simp split: list.splits)
next
  case (Cons a s)
  then have np: "\<not> prefix sep (a # s)" and nc: "\<not> contains_py sep s" by simp_all
  have "\<not> prefix sep ((a # s) @ c # y)"
    using prefix_before_foreign_char[OF assms(2)] np by blast
  then have "split_py sep ((a # s) @ c # y) =
             (case split_py sep (s @ c # y) of [] \<Rightarrow> [[a]] | p # ps \<Rightarrow> (a # p) # ps)"
    by simp
  then show ?case using Cons.IH[OF nc] by (simp split: list.splits)
qed

lemma nl_not_backtick: "nl \<notin> set ''```''" "nl \<notin> set ''```json''"
  by (simp_all add: nl_def)

text \<open>The body of a fence, for a text without a fence of its own.\<close>

lemma split_body:
  assumes "\<not> contains_py ''```'' s"
  shows "split_py ''```'' (nl # s @ nl # ''```'') = [nl # s @ [nl], []]"
    and "split_py ''```json'' (nl # s @ nl # ''```'') = [nl # s @ nl # ''```'']"
    and "split_py ''```'' (nl # s @ [nl]) = [nl # s @ [nl]]"
proof -
  have j: "\<not> contains_py ''```json'' s"
    using assms contains_py_prefix[of "''```''" "''json''" s] by auto
  have e: "\<not> contains_py sep []" if "sep \<noteq> []" for sep :: string
    using that by simp
  have a: "split_py ''```'' (s @ nl # ''```'') = [s @ [nl], []]"
    using split_py_skip[of "''```''" nl s "''```''"] assms nl_not_backtick by simp
  show "split_py ''```'' (nl # s @ nl # ''```'') = [nl # s @ [nl], []]"
    using split_py_skip[of "''```''" nl "[]" "s @ nl # ''```''"] nl_not_backtick a by simp
  have b: "split_py ''```json'' (s @ nl # ''```'') = [s @ nl # ''```'']"
    using split_py_skip[of "''```json''" nl s "''```''"] j nl_not_backtick by simp
  show "split_py ''```json'' (nl # s @ nl # ''```'') = [nl # s @ nl # ''```'']"
    using split_py_skip[of "''```json''" nl "[]" "s @ nl # ''```''"] nl_not_backtick b by simp
  have c: "split_py ''```'' (s @ [nl]) = [s @ [nl]]"
    using split_py_skip[of "''```''" nl s "[]"] assms nl_not_backtick by simp
  show "split_py ''```'' (nl # s @ [nl]) = [nl # s @ [nl]]"
    using split_py_skip[of "''```''" nl "[]" "s @ [nl]"] nl_not_backtick c by simp
qed

lemma strip_fence_labelled:
  assumes "\<not> contains_py ''```'' s"
  shows "strip_fence (''```json'' @ [nl] @ s @ [nl] @ ''```'') = [nl] @ s @ [nl]"
proof -
  have "split_py ''```json'' (''```json'' @ nl # s @ nl # ''```'') =
        [[], nl # s @ nl # ''```'']"
    using split_body(2)[OF assms] by simp
  then have "between_fences ''```json'' (''```json'' @ nl # s @ nl # ''```'') = Inr (nl # s @ [nl])"
    using split_body(1)[OF assms] by (simp add: between_fences_def index_py_def)
  then show ?thesis by (simp add: strip_fence_def)
qed

lemma strip_fence_bare:
  assumes "\<not> contains_py ''```'' s"
  shows "strip_fence (''```'' @ [nl] @ s @ [nl] @ ''```'') = [nl] @ s @ [nl]"
proof -
  have "split_py ''```json'' (''```'' @ nl # s @ nl # ''```'') = [''```'' @ nl # s @ nl # ''```'']"
    using split_body(2)[OF assms] by (simp add: nl_def)
  then have a: "between_fences ''```json'' (''```'' @ nl # s @ nl # ''```'') =
                Inl (IndexError ''list index out of range'')"
    by (simp add: between_fences_def index_py_def)
  have "split_py ''```'' (''```'' @ nl # s @ nl # ''```'') = [[], nl # s @ [nl], []]"
    using split_body(1)[OF assms] by simp
  then have b: "between_fences ''```'' (''```'' @ nl # s @ nl # ''```'') = Inr (nl # s @ [nl])"
    using split_body(3)[OF assms] by (simp add: between_fences_def index_py_def)
  show ?thesis using a b by (simp add: strip_fence_def)
qed

lemma fenced_text_read:
  assumes "\<not> contains_py ''```'' s"
  shows "strip_fence (strip (text_or_default (Some (''```json'' @ [nl] @ s @ [nl] @ ''```'')))) =
           [nl] @ s @ [nl]"
    and "strip_fence (strip (text_or_default (Some (''```'' @ [nl] @ s @ [nl] @ ''```'')))) =
           [nl] @ s @ [nl]"
proof -
  have 1: "strip (''```json'' @ [nl] @ s @ [nl] @ ''```'') = ''```json'' @ [nl] @ s @ [nl] @ ''```''"
    using strip_between_backticks[of "''``json'' @ [nl] @ s @ [nl] @ ''``''"] by simp
  have 2: "strip (''```'' @ [nl] @ s @ [nl] @ ''```'') = ''```'' @ [nl] @ s @ [nl] @ ''```''"
    using strip_between_backticks[of "''``'' @ [nl] @ s @ [nl] @ ''``''"] by simp
  show "strip_fence (strip (text_or_default (Some (''```json'' @ [nl] @ s @ [nl] @ ''```'')))) =
           [nl] @ s @ [nl]"
    using 1 strip_fence_labelled[OF assms] by (simp add: text_or_default_def)
  show "strip_fence (strip (text_or_default (Some (''```'' @ [nl] @ s @ [nl] @ ''```'')))) =
           [nl] @ s @ [nl]"
    using 2 strip_fence_bare[OF assms] by (simp add: text_or_default_def)
qed

lemma bare_array_read: "strip_fence (strip (text_or_default (Some ''[1,2]''))) = ''[1,2]''"
  by code_simp

definition fenced :: "string \<Rightarrow> string" where
  "fenced s = ''```json'' @ [nl] @ s @ [nl] @ ''```''"

text \<open>The serialisation of the object whose field \<open>a\<close> is a string of three backticks.\<close>

definition text_backticks :: string where
  "text_backticks = ''{'' @ quoted ''a'' @ '': '' @ quoted ''```'' @ ''}''"

definition text_a1 :: string where
  "text_a1 = ''{'' @ quoted ''a'' @ '': 1}''"

text \<open>
  C4 as stated fails: the object \<open>{"a": "```"}\<close>, serialised and wrapped in a fence, is
  cut at the backticks inside its string; what is left is not JSON and the row is
  dropped.
\<close>

theorem fenced_backticks_not_recovered:
  "json_loads (stub_runtime (always (fenced text_backticks))) text_backticks =
     Inr (JObj [(''a'', JStr ''```'')])
   \<and> strip_fence (strip (text_or_default (Some (fenced text_backticks)))) =
     [nl] @ ''{'' @ quoted ''a'' @ '': '' @ [dq]
   \<and> run_row (stub_runtime (always (fenced text_backticks))) rows2 ''r1'' [JStr ''a''] = None"
  by code_simp

text \<open>
  C4, amended. In row mode, a reply that is a fenced block, labelled \<open>json\<close> or not,
  around a text without three backticks in a row is read as that text between the
  newlines of the fence: when the text is the serialisation of a JSON object, the
  object is returned unchanged. A reply that parses to a value that is not an object,
  such as the bare array \<open>[1,2]\<close>, is returned wrapped as \<open>{"output": [1,2]}\<close>. In
  score mode nothing is wrapped: there a reply that parses to a value that is not an
  object is dropped.
\<close>

theorem fenced_object_round_trip:
  "(\<not> contains_py ''```'' s
      \<and> json_loads rt ([nl] @ s @ [nl]) = Inr (JObj obj)
      \<and> generate_content rt (row_prompt rt request vs) =
            Inr (Some (''```json'' @ [nl] @ s @ [nl] @ ''```'')) \<longrightarrow>
      run_row rt request k vs = Some (k, obj))
   \<and> (\<not> contains_py ''```'' s
      \<and> json_loads rt ([nl] @ s @ [nl]) = Inr (JObj obj)
      \<and> generate_content rt (row_prompt rt request vs) =
            Inr (Some (''```'' @ [nl] @ s @ [nl] @ ''```'')) \<longrightarrow>
      run_row rt request k vs = Some (k, obj))
   \<and> (generate_content rt (row_prompt rt request vs) = Inr (Some ''[1,2]'')
      \<and> json_loads rt ''[1,2]'' = Inr (JArr [JInt 1, JInt 2]) \<longrightarrow>
      run_row rt request k vs = Some (k, [(''output'', JArr [JInt 1, JInt 2])]))
   \<and> (generate_content rt (row_prompt rt request vs) = Inr t
      \<and> json_loads rt (strip_fence (strip (text_or_default t))) = Inr v
      \<and> (\<forall>d. v \<noteq> JObj d) \<longrightarrow>
      run_row rt request k vs = Some (k, [(''output'', v)]))
   \<and> (generate_content rt (replace_py ''{{ keyword }}'' kw tpl) = Inr t
      \<and> json_loads rt (strip_fence (strip (text_or_default t))) = Inr v
      \<and> (\<forall>d. v \<noteq> JObj d) \<longrightarrow>
      score rt tpl kw = None \<and> score_kw rt tpl kw = None)"
proof (intro conjI impI)
  assume a: "\<not> contains_py ''```'' s
      \<and> json_loads rt ([nl] @ s @ [nl]) = Inr (JObj obj)
      \<and> generate_content rt (row_prompt rt request vs) =
            Inr (Some (''```json'' @ [nl] @ s @ [nl] @ ''```''))"
  then have "strip_fence (strip (text_or_default (Some (''```json'' @ [nl] @ s @ [nl] @ ''```'')))) =
             [nl] @ s @ [nl]"
    using fenced_text_read(1) by blast
  then show "run_row rt request k vs = Some (k, obj)"
    using a by (simp add: run_row_def)
next
  assume a: "\<not> contains_py ''```'' s
      \<and> json_loads rt ([nl] @ s @ [nl]) = Inr (JObj obj)
      \<and> generate_content rt (row_prompt rt request vs) =
            Inr (Some (''```'' @ [nl] @ s @ [nl] @ ''```''))"
  then have "strip_fence (strip (text_or_default (Some (''```'' @ [nl] @ s @ [nl] @ ''```'')))) =
             [nl] @ s @ [nl]"
    using fenced_text_read(2) by blast
  then show "run_row rt request k vs = Some (k, obj)"
    using a by (simp add: run_row_def)
next
  assume a: "generate_content rt (row_prompt rt request vs) = Inr (Some ''[1,2]'')
      \<and> json_loads rt ''[1,2]'' = Inr (JArr [JInt 1, JInt 2])"
  then show "run_row rt request k vs = Some (k, [(''output'', JArr [JInt 1, JInt 2])])"
    using bare_array_read by (simp add: run_row_def)
next
  assume a: "generate_content rt (row_prompt rt request vs) = Inr t
      \<and> json_loads rt (strip_fence (strip (text_or_default t))) = Inr v
      \<and> (\<forall>d. v \<noteq> JObj d)"
  then show "run_row rt request k vs = Some (k, [(''output'', v)])"
    by (cases v) (simp_all add: run_row_def)
next
  assume a: "generate_content rt (replace_py ''{{ keyword }}'' kw tpl) = Inr t
      \<and> json_loads rt (strip_fence (strip (text_or_default t))) = Inr v
      \<and> (\<forall>d. v \<noteq> JObj d)"
  then show "score rt tpl kw = None"
    by (cases v) (simp_all add: score_def json_get_def)
  from a show "score_kw rt tpl kw = None"
    by (cases v) (simp_all add: score_kw_def json_get_def)
qed

theorem fenced_object_round_trip_witness:
  "\<not> contains_py ''```'' text_a1
   \<and> json_loads (stub_runtime (always (fenced text_a1))) ([nl] @ text_a1 @ [nl]) =
       Inr (JObj [(''a'', JInt 1)])
   \<and> generate_content (stub_runtime (always (fenced text_a1)))
       (row_prompt (stub_runtime (always (fenced text_a1))) rows2 [JStr ''a'']) =
       Inr (Some (''```json'' @ [nl] @ text_a1 @ [nl] @ ''```''))
   \<and> run_row (stub_runtime (always (fenced text_a1))) rows2 ''r1'' [JStr ''a''] =
       Some (''r1'', [(''a'', JInt 1)])
   \<and> json_loads (stub_runtime (always ''[1,2]'')) ''[1,2]'' = Inr (JArr [JInt 1, JInt 2])
   \<and> run_row (stub_runtime (always ''[1,2]'')) rows2 ''r1'' [JStr ''a''] =
       Some (''r1'', [(''output'', JArr [JInt 1, JInt 2])])"
proof -
  let ?rt = "stub_runtime (always (fenced text_a1))"
  let ?rt2 = "stub_runtime (always ''[1,2]'')"
  have h1: "\<not> contains_py ''```'' text_a1" by code_simp
  have h2: "json_loads ?rt ([nl] @ text_a1 @ [nl]) = Inr (JObj [(''a'', JInt 1)])" by code_simp
  have h3: "generate_content ?rt (row_prompt ?rt rows2 [JStr ''a'']) =
            Inr (Some (''```json'' @ [nl] @ text_a1 @ [nl] @ ''```''))"
    by (simp add: stub_runtime_def always_def fenced_def)
  have h4: "generate_content ?rt2 (row_prompt ?rt2 rows2 [JStr ''a'']) = Inr (Some ''[1,2]'')"
    by (simp add: stub_runtime_def always_def)
  have h5: "json_loads ?rt2 ''[1,2]'' = Inr (JArr [JInt 1, JInt 2])" by code_simp
  from fenced_object_round_trip[where rt = ?rt and s = text_a1 and obj = "[(''a'', JInt 1)]"
      and request = rows2 and vs = "[JStr ''a'']" and k = "''r1''"]
  have r1: "run_row ?rt rows2 ''r1'' [JStr ''a''] = Some (''r1'', [(''a'', JInt 1)])"
    using h1 h2 h3 by blast
  from fenced_object_round_trip[where rt = ?rt2 and request = rows2 and vs = "[JStr ''a'']"
      and k = "''r1''"]
  have r2: "run_row ?rt2 rows2 ''r1'' [JStr ''a''] = Some (''r1'', [(''output'', JArr [JInt 1, JInt 2])])"
    using h4 h5 by blast
  show ?thesis using h1 h2 h3 h5 r1 r2 by simp
qed


end
